theory Spec2Isabelle
  imports Main "HOL-Library.Word"
begin

unbundle bit_operations_syntax

section \<open>Environment registration: the endpoint creation handler\<close>

text \<open>
  The handler under verification is the Go file of package \<open>endpoints\<close> that serves
  \<open>POST /api/endpoints\<close>: \<open>endpointCreatePayload.Validate\<close>, \<open>endpointCreate\<close>,
  \<open>createEndpoint\<close> and the four per-type constructors with their helpers
  \<open>randomInt\<close>, \<open>snapshotAndPersistEndpoint\<close> and \<open>storeTLSFiles\<close>.

  Go values are modelled as follows. A Go \<open>int\<close> is a 64-bit integer, written as \<open>int\<close>
  with the range written out where the library depends on it (\<open>Atoi\<close>). A \<open>[]byte\<close> is a
  list of 8-bit words. A Go \<open>error\<close> is its message; a nilable result is an \<open>option\<close>
  with \<open>None\<close> for \<open>nil\<close>, and a Go multiple return \<open>(v, err)\<close> is the pair of the value
  and an \<open>error option\<close>.
\<close>

type_synonym byte = "8 word"
type_synonym error = string

subsection \<open>The standard library: \<open>strconv\<close>, \<open>strings\<close>, \<open>encoding/base64\<close>\<close>

definition is_digit :: "char \<Rightarrow> bool" where
  "is_digit c = (48 \<le> (of_char c :: nat) \<and> (of_char c :: nat) \<le> 57)"

fun decimal_value :: "int \<Rightarrow> string \<Rightarrow> int" where
  "decimal_value acc [] = acc"
| "decimal_value acc (c # cs) = decimal_value (acc * 10 + ((of_char c :: int) - 48)) cs"

text \<open>
  \<open>strconv.Atoi\<close>: an optional sign and at least one decimal digit. A syntax error gives
  \<open>(0, err)\<close>; a value outside the 64-bit range gives the nearest bound and a range error.
\<close>

definition Atoi :: "string \<Rightarrow> int \<times> error option" where
  "Atoi s =
     (let (neg, ds) =
            (case s of
               [] \<Rightarrow> (False, [])
             | c # cs \<Rightarrow>
                 if c = CHR ''-'' then (True, cs)
                 else if c = CHR ''+'' then (False, cs)
                 else (False, s))
      in if ds = [] \<or> \<not> list_all is_digit ds then (0, Some ''invalid syntax'')
         else
           let n = decimal_value 0 ds;
               v = (if neg then - n else n)
           in if v > 9223372036854775807 then (9223372036854775807, Some ''value out of range'')
              else if v < - 9223372036854775808 then (- 9223372036854775808, Some ''value out of range'')
              else (v, None))"

definition digits :: string where
  "digits = ''0123456789''"

fun nat_digits :: "nat \<Rightarrow> string" where
  "nat_digits n =
     (if n < 10 then [digits ! n]
      else nat_digits (n div 10) @ [digits ! (n mod 10)])"

declare nat_digits.simps [simp del]

text \<open>\<open>strconv.Itoa\<close>: the decimal rendering of an integer.\<close>

definition Itoa :: "int \<Rightarrow> string" where
  "Itoa i = (if i < 0 then CHR ''-'' # nat_digits (nat (- i)) else nat_digits (nat i))"

text \<open>\<open>strings.TrimPrefix\<close>: the string without the prefix when it starts with it.\<close>

definition TrimPrefix :: "string \<Rightarrow> string \<Rightarrow> string" where
  "TrimPrefix s prefix =
     (if take (length prefix) s = prefix then drop (length prefix) s else s)"

definition encodeStd :: string where
  "encodeStd = ''ABCDEFGHIJKLMNOPQRSTUVWXYZabcdefghijklmnopqrstuvwxyz0123456789+/''"


text \<open>
  \<open>base64.Encoding.Encode\<close> without padding (the \<open>Raw\<close> encodings): every three bytes
  make a 24-bit value that is cut into four 6-bit indices of the alphabet; a remainder
  of one byte gives two characters and a remainder of two bytes gives three.
\<close>

definition sextet :: "string \<Rightarrow> 64 word \<Rightarrow> nat \<Rightarrow> char" where
  "sextet alphabet val shift = alphabet ! unat (drop_bit shift val AND 0x3F)"

definition encode_quantum :: "string \<Rightarrow> byte \<Rightarrow> byte \<Rightarrow> byte \<Rightarrow> string" where
  "encode_quantum alphabet b0 b1 b2 =
     (let val = push_bit 16 (ucast b0) OR push_bit 8 (ucast b1) OR ucast b2
      in [sextet alphabet val 18, sextet alphabet val 12,
          sextet alphabet val 6, sextet alphabet val 0])"

definition encode_remain2 :: "string \<Rightarrow> byte \<Rightarrow> byte \<Rightarrow> string" where
  "encode_remain2 alphabet b0 b1 =
     (let val = push_bit 16 (ucast b0) OR push_bit 8 (ucast b1)
      in [sextet alphabet val 18, sextet alphabet val 12, sextet alphabet val 6])"

definition encode_remain1 :: "string \<Rightarrow> byte \<Rightarrow> string" where
  "encode_remain1 alphabet b0 =
     (let val = push_bit 16 (ucast b0)
      in [sextet alphabet val 18, sextet alphabet val 12])"

fun base64_encode_raw :: "string \<Rightarrow> byte list \<Rightarrow> string" where
  "base64_encode_raw alphabet (b0 # b1 # b2 # rest) =
     encode_quantum alphabet b0 b1 b2 @ base64_encode_raw alphabet rest"
| "base64_encode_raw alphabet [b0, b1] = encode_remain2 alphabet b0 b1"
| "base64_encode_raw alphabet [b0] = encode_remain1 alphabet b0"
| "base64_encode_raw alphabet [] = []"

definition RawStdEncoding_EncodeToString :: "byte list \<Rightarrow> string" where
  "RawStdEncoding_EncodeToString src = base64_encode_raw encodeStd src"


subsection \<open>The data model of package \<open>portainer\<close>\<close>

text \<open>
  The endpoint type is a Go integer type. Its four constants are the codes that the
  message of \<open>Validate\<close> documents: 1 (Docker), 2 (Agent), 3 (Azure), 4 (Edge Agent).
  A request can carry any other integer, so the type stays \<open>int\<close>.
\<close>

type_synonym EndpointType = int

definition DockerEnvironment :: EndpointType where "DockerEnvironment = 1"
definition AgentOnDockerEnvironment :: EndpointType where "AgentOnDockerEnvironment = 2"
definition AzureEnvironment :: EndpointType where "AzureEnvironment = 3"
definition EdgeAgentEnvironment :: EndpointType where "EdgeAgentEnvironment = 4"

datatype EndpointStatus = EndpointStatusUp | EndpointStatusDown

datatype TLSFileType = TLSFileCA | TLSFileCert | TLSFileKey

text \<open>A snapshot and a parsed \<open>tls.Config\<close> are opaque artifacts of their subsystems.\<close>

datatype Snapshot = Snapshot string

datatype tls_Config = tls_Config string

record AzureCredentials =
  ApplicationID :: string
  TenantID :: string
  AuthenticationKey :: string

record TLSConfiguration =
  TLS :: bool
  TLSSkipVerify :: bool
  TLSCACertPath :: string
  TLSCertPath :: string
  TLSKeyPath :: string

record EdgeKey =
  TunnelServerAddr :: string
  TunnelServerPort :: string
  TunnelPort :: string
  TunnelServerFingerprint :: string
  Credentials :: string

text \<open>
  The environment record. \<open>Tags\<close> is a Go slice, which can be \<open>nil\<close>: \<open>None\<close> is the
  nil slice and \<open>Some []\<close> the empty one. \<open>Status\<close> is \<open>None\<close> while the field holds Go's
  zero value, which is neither Up nor Down; every constructor assigns it. The
  access-policy, authorization and extension collections, which every constructor
  initialises to an empty collection and nothing here reads, are left out.
\<close>

record Endpoint =
  ID :: int
  Name :: string
  URL :: string
  Type :: EndpointType
  GroupID :: int
  PublicURL :: string
  TLSConfig :: TLSConfiguration
  AzureCredentials :: AzureCredentials
  Tags :: "string list option"
  Status :: "EndpointStatus option"
  Snapshots :: "Snapshot list"
  EdgeKey :: string

record HandlerError =
  StatusCode :: int
  Message :: string
  Err :: error

definition StatusBadRequest :: int where "StatusBadRequest = 400"
definition StatusInternalServerError :: int where "StatusInternalServerError = 500"
definition StatusServiceUnavailable :: int where "StatusServiceUnavailable = 503"

definition ErrEndpointManagementDisabled :: error where
  "ErrEndpointManagementDisabled = ''Endpoint management is disabled''"

record endpointCreatePayload =
  payload_Name :: string
  payload_URL :: string
  payload_EndpointType :: int
  payload_PublicURL :: string
  payload_GroupID :: int
  payload_TLS :: bool
  payload_TLSSkipVerify :: bool
  payload_TLSSkipClientVerify :: bool
  payload_TLSCACertFile :: "byte list"
  payload_TLSCertFile :: "byte list"
  payload_TLSKeyFile :: "byte list"
  payload_AzureApplicationID :: string
  payload_AzureTenantID :: string
  payload_AzureAuthenticationKey :: string
  payload_Tags :: "string list option"

text \<open>The zero values that Go gives to the fields a composite literal leaves out.\<close>

definition zero_TLSConfiguration :: TLSConfiguration where
  "zero_TLSConfiguration =
     \<lparr>TLS = False, TLSSkipVerify = False, TLSCACertPath = [], TLSCertPath = [],
      TLSKeyPath = []\<rparr>"

definition zero_AzureCredentials :: AzureCredentials where
  "zero_AzureCredentials = \<lparr>ApplicationID = [], TenantID = [], AuthenticationKey = []\<rparr>"

definition zero_Endpoint :: Endpoint where
  "zero_Endpoint =
     \<lparr>ID = 0, Name = [], URL = [], Type = 0, GroupID = 0, PublicURL = [],
      TLSConfig = zero_TLSConfiguration, AzureCredentials = zero_AzureCredentials,
      Tags = None, Status = None, Snapshots = [], EdgeKey = []\<rparr>"

definition zero_payload :: endpointCreatePayload where
  "zero_payload =
     \<lparr>payload_Name = [], payload_URL = [], payload_EndpointType = 0,
      payload_PublicURL = [], payload_GroupID = 0, payload_TLS = False,
      payload_TLSSkipVerify = False, payload_TLSSkipClientVerify = False,
      payload_TLSCACertFile = [], payload_TLSCertFile = [], payload_TLSKeyFile = [],
      payload_AzureApplicationID = [], payload_AzureTenantID = [],
      payload_AzureAuthenticationKey = [], payload_Tags = None\<rparr>"

subsection \<open>Collaborators and the observable state\<close>

text \<open>
  The handler calls code that is outside this file: the HTTP client that pings an engine
  or authenticates against Azure, the TLS parser, the digest, the JSON codec, the random
  source, and the three services the handler holds (endpoint store, snapshotter, file
  store). Their answers are parameters of the model: \<open>Packages\<close> holds what the
  package-level functions answer and \<open>Handler\<close> the handler's own fields and what its
  services answer. Every theorem below holds for all such answers.
\<close>

record Packages =
  client_ExecutePingOperation :: "string \<Rightarrow> tls_Config option \<Rightarrow> bool \<times> error option"
  client_ExecuteAzureAuthenticationRequest :: "AzureCredentials \<Rightarrow> error option"
  crypto_CreateTLSConfigurationFromBytes ::
    "byte list \<Rightarrow> byte list \<Rightarrow> byte list \<Rightarrow> bool \<Rightarrow> bool \<Rightarrow> tls_Config option \<times> error option"
  crypto_digest_size :: nat
  crypto_digest_byte :: "byte list \<Rightarrow> nat \<Rightarrow> byte"
  json_Marshal :: "EdgeKey \<Rightarrow> byte list \<times> error option"
  json_Unmarshal :: "string \<Rightarrow> string list option \<times> error option"
  rand_source :: "nat \<Rightarrow> nat"
  runtime_GOOS :: string

record Handler =
  handler_authorizeEndpointManagement :: bool
  handler_TunnelServerFingerprint :: string
  handler_EndpointService_CreateEndpoint :: "Endpoint \<Rightarrow> error option"
  handler_Snapshotter_CreateSnapshot :: "Endpoint \<Rightarrow> Snapshot option \<times> error option"
  handler_FileService_StoreTLSFileFromBytes ::
    "string \<Rightarrow> TLSFileType \<Rightarrow> byte list \<Rightarrow> string \<times> error option"

text \<open>
  What a registration can change or cause outside its own memory: the identifier
  sequence, the records written to the endpoint store, the number of draws taken from
  the process-wide random source, and the calls made to collaborators, in order.
\<close>

datatype Call =
    CallExecutePingOperation string bool
  | CallExecuteAzureAuthenticationRequest
  | CallGetNextIdentifier
  | CallCreateSnapshot
  | CallLogPrintf
  | CallStoreTLSFileFromBytes string TLSFileType
  | CallCreateEndpoint int

record World =
  sequence :: int
  persisted :: "Endpoint list"
  rand_calls :: nat
  calls :: "Call list"

text \<open>
  Modelled from the spec: \<open>crypto.HashFromBytes\<close> is not part of this file. The spec
  calls its result "a cryptographic digest" that is "fixed-length": the digest of any
  input is a sequence of \<open>crypto_digest_size\<close> bytes, the byte at each position being
  what the digest function answers for the input at that position.
\<close>

definition HashFromBytes :: "Packages \<Rightarrow> byte list \<Rightarrow> byte list" where
  "HashFromBytes pk data = map (crypto_digest_byte pk data) [0..<crypto_digest_size pk]"

definition ExecutePingOperation ::
  "Packages \<Rightarrow> string \<Rightarrow> tls_Config option \<Rightarrow> World \<Rightarrow> (bool \<times> error option) \<times> World" where
  "ExecutePingOperation pk url tlsConfig w =
     (client_ExecutePingOperation pk url tlsConfig,
      w\<lparr>calls := calls w @ [CallExecutePingOperation url (tlsConfig \<noteq> None)]\<rparr>)"

definition ExecuteAzureAuthenticationRequest ::
  "Packages \<Rightarrow> AzureCredentials \<Rightarrow> World \<Rightarrow> error option \<times> World" where
  "ExecuteAzureAuthenticationRequest pk credentials w =
     (client_ExecuteAzureAuthenticationRequest pk credentials,
      w\<lparr>calls := calls w @ [CallExecuteAzureAuthenticationRequest]\<rparr>)"

text \<open>
  Modelled from the spec: \<open>EndpointService.GetNextIdentifier\<close> is not part of this file.
  The identifier is "unique, monotonically assigned, never reused", taken from "a single
  authoritative next-id source": each call advances the sequence and returns its new value.
\<close>

definition GetNextIdentifier :: "World \<Rightarrow> int \<times> World" where
  "GetNextIdentifier w =
     (sequence w + 1,
      w\<lparr>sequence := sequence w + 1, calls := calls w @ [CallGetNextIdentifier]\<rparr>)"

text \<open>
  Modelled from the spec: the store behind \<open>EndpointService.CreateEndpoint\<close> is not part
  of this file. The write is the one call that persists the record, and its error is
  surfaced to the caller: it either fails with the store's error, leaving the store as
  it was, or adds the record to the store.
\<close>

definition CreateEndpoint :: "Handler \<Rightarrow> Endpoint \<Rightarrow> World \<Rightarrow> error option \<times> World" where
  "CreateEndpoint handler endpoint w =
     (case handler_EndpointService_CreateEndpoint handler endpoint of
        Some err \<Rightarrow> (Some err, w\<lparr>calls := calls w @ [CallCreateEndpoint (ID endpoint)]\<rparr>)
      | None \<Rightarrow>
          (None, w\<lparr>persisted := persisted w @ [endpoint],
                    calls := calls w @ [CallCreateEndpoint (ID endpoint)]\<rparr>))"

definition CreateSnapshot ::
  "Handler \<Rightarrow> Endpoint \<Rightarrow> World \<Rightarrow> (Snapshot option \<times> error option) \<times> World" where
  "CreateSnapshot handler endpoint w =
     (handler_Snapshotter_CreateSnapshot handler endpoint,
      w\<lparr>calls := calls w @ [CallCreateSnapshot]\<rparr>)"

definition StoreTLSFileFromBytes ::
  "Handler \<Rightarrow> string \<Rightarrow> TLSFileType \<Rightarrow> byte list \<Rightarrow> World \<Rightarrow> (string \<times> error option) \<times> World" where
  "StoreTLSFileFromBytes handler folder fileType r w =
     (handler_FileService_StoreTLSFileFromBytes handler folder fileType r,
      w\<lparr>calls := calls w @ [CallStoreTLSFileFromBytes folder fileType]\<rparr>)"

definition log_Printf :: "World \<Rightarrow> World" where
  "log_Printf w = w\<lparr>calls := calls w @ [CallLogPrintf]\<rparr>"

text \<open>
  \<open>rand.Intn n\<close> panics when \<open>n \<le> 0\<close> (\<open>None\<close>); otherwise it reduces the next draw of
  the process-wide source into \<open>[0, n)\<close>.
\<close>

definition rand_Intn :: "Packages \<Rightarrow> int \<Rightarrow> World \<Rightarrow> (int \<times> World) option" where
  "rand_Intn pk n w =
     (if n \<le> 0 then None
      else Some (int (rand_source pk (rand_calls w)) mod n,
                 w\<lparr>rand_calls := rand_calls w + 1\<rparr>))"

subsection \<open>The request and the form readers of \<open>libhttp/request\<close>\<close>

text \<open>
  A multi-part request is what \<open>http.Request\<close> answers to the two readers the parser
  uses: \<open>FormValue\<close>, the first value of a field or the empty string, and \<open>FormFile\<close>,
  the bytes of an uploaded file or an error.
\<close>

record Request =
  FormValue :: "string \<Rightarrow> string"
  FormFile :: "string \<Rightarrow> byte list \<times> error option"

definition RetrieveMultiPartFormValue :: "Request \<Rightarrow> string \<Rightarrow> bool \<Rightarrow> string \<times> error option" where
  "RetrieveMultiPartFormValue r name optional =
     (let v = FormValue r name
      in if v = [] \<and> \<not> optional then ([], Some ''missing request data'') else (v, None))"

definition RetrieveNumericMultiPartFormValue :: "Request \<Rightarrow> string \<Rightarrow> bool \<Rightarrow> int \<times> error option" where
  "RetrieveNumericMultiPartFormValue r name optional =
     (let (v, err) = RetrieveMultiPartFormValue r name optional
      in if err \<noteq> None then (0, err) else Atoi v)"

definition RetrieveBooleanMultiPartFormValue :: "Request \<Rightarrow> string \<Rightarrow> bool \<Rightarrow> bool \<times> error option" where
  "RetrieveBooleanMultiPartFormValue r name optional =
     (let (v, err) = RetrieveMultiPartFormValue r name optional
      in if err \<noteq> None then (False, err) else (v = ''true'', None))"

text \<open>
  The JSON reader leaves its target as it was (here the nil slice) when the field is
  absent, and otherwise hands the text to \<open>json.Unmarshal\<close>.
\<close>

definition RetrieveMultiPartFormJSONValue ::
  "Packages \<Rightarrow> Request \<Rightarrow> string \<Rightarrow> bool \<Rightarrow> string list option \<times> error option" where
  "RetrieveMultiPartFormJSONValue pk r name optional =
     (let (v, err) = RetrieveMultiPartFormValue r name optional
      in if err \<noteq> None then (None, err)
         else if v = [] then (None, None)
         else json_Unmarshal pk v)"

definition RetrieveMultiPartFormFile :: "Request \<Rightarrow> string \<Rightarrow> byte list \<times> error option" where
  "RetrieveMultiPartFormFile r requestParameter = FormFile r requestParameter"

subsection \<open>The handler\<close>

text \<open>
  \<open>endpointCreatePayload.Validate\<close>. The Go function is one sequence of steps with early
  returns; the model cuts it where a conditional block ends: the CA file, the client
  certificate and key, the TLS block that holds both, the \<open>switch\<close> on the type, and the
  common fields that come first.
\<close>

definition Validate_TLSCACertFile :: "Request \<Rightarrow> endpointCreatePayload \<Rightarrow> error + endpointCreatePayload" where
  "Validate_TLSCACertFile r payload =
     (if \<not> payload_TLSSkipVerify payload then
        let (caCert, err) = RetrieveMultiPartFormFile r ''TLSCACertFile''
        in if err \<noteq> None
           then Inl ''Invalid CA certificate file. Ensure that the file is uploaded correctly''
           else Inr (payload\<lparr>payload_TLSCACertFile := caCert\<rparr>)
      else Inr payload)"

definition Validate_TLSClientFiles :: "Request \<Rightarrow> endpointCreatePayload \<Rightarrow> error + endpointCreatePayload" where
  "Validate_TLSClientFiles r payload =
     (if \<not> payload_TLSSkipClientVerify payload then
        let (cert, err) = RetrieveMultiPartFormFile r ''TLSCertFile''
        in if err \<noteq> None
           then Inl ''Invalid certificate file. Ensure that the file is uploaded correctly''
           else
             let payload = payload\<lparr>payload_TLSCertFile := cert\<rparr>;
                 (key, err) = RetrieveMultiPartFormFile r ''TLSKeyFile''
             in if err \<noteq> None
                then Inl ''Invalid key file. Ensure that the file is uploaded correctly''
                else Inr (payload\<lparr>payload_TLSKeyFile := key\<rparr>)
      else Inr payload)"

definition Validate_TLS :: "Request \<Rightarrow> endpointCreatePayload \<Rightarrow> error + endpointCreatePayload" where
  "Validate_TLS r payload =
     (if payload_TLS payload then
        let (skipTLSServerVerification, _) = RetrieveBooleanMultiPartFormValue r ''TLSSkipVerify'' True;
            payload = payload\<lparr>payload_TLSSkipVerify := skipTLSServerVerification\<rparr>;
            (skipTLSClientVerification, _) = RetrieveBooleanMultiPartFormValue r ''TLSSkipClientVerify'' True;
            payload = payload\<lparr>payload_TLSSkipClientVerify := skipTLSClientVerification\<rparr>
        in case Validate_TLSCACertFile r payload of
             Inl e \<Rightarrow> Inl e
           | Inr payload \<Rightarrow> Validate_TLSClientFiles r payload
      else Inr payload)"

definition Validate_type_fields :: "Request \<Rightarrow> endpointCreatePayload \<Rightarrow> error + endpointCreatePayload" where
  "Validate_type_fields r payload =
     (if payload_EndpointType payload = AzureEnvironment then
        let (azureApplicationID, err) = RetrieveMultiPartFormValue r ''AzureApplicationID'' False
        in if err \<noteq> None then Inl ''Invalid Azure application ID''
           else
             let payload = payload\<lparr>payload_AzureApplicationID := azureApplicationID\<rparr>;
                 (azureTenantID, err) = RetrieveMultiPartFormValue r ''AzureTenantID'' False
             in if err \<noteq> None then Inl ''Invalid Azure tenant ID''
                else
                  let payload = payload\<lparr>payload_AzureTenantID := azureTenantID\<rparr>;
                      (azureAuthenticationKey, err) =
                         RetrieveMultiPartFormValue r ''AzureAuthenticationKey'' False
                  in if err \<noteq> None then Inl ''Invalid Azure authentication key''
                     else Inr (payload\<lparr>payload_AzureAuthenticationKey := azureAuthenticationKey\<rparr>)
      else
        let (url, err) = RetrieveMultiPartFormValue r ''URL'' True
        in if err \<noteq> None then Inl ''Invalid endpoint URL''
           else
             let payload = payload\<lparr>payload_URL := url\<rparr>;
                 (publicURL, _) = RetrieveMultiPartFormValue r ''PublicURL'' True
             in Inr (payload\<lparr>payload_PublicURL := publicURL\<rparr>))"

definition Validate :: "Packages \<Rightarrow> Request \<Rightarrow> error + endpointCreatePayload" where
  "Validate pk r =
     (let payload = zero_payload;
          (name, err) = RetrieveMultiPartFormValue r ''Name'' False
      in if err \<noteq> None then Inl ''Invalid endpoint name''
         else
           let payload = payload\<lparr>payload_Name := name\<rparr>;
               (endpointType, err) = RetrieveNumericMultiPartFormValue r ''EndpointType'' False
           in if err \<noteq> None \<or> endpointType = 0
              then Inl ''Invalid endpoint type value. Value must be one of: 1 (Docker environment), 2 (Agent environment), 3 (Azure environment) or 4 (Edge Agent environment)''
              else
                let payload = payload\<lparr>payload_EndpointType := endpointType\<rparr>;
                    (groupID, _) = RetrieveNumericMultiPartFormValue r ''GroupID'' True;
                    groupID = (if groupID = 0 then 1 else groupID);
                    payload = payload\<lparr>payload_GroupID := groupID\<rparr>;
                    (tags, err) = RetrieveMultiPartFormJSONValue pk r ''Tags'' True
                in if err \<noteq> None then Inl ''Invalid Tags parameter''
                   else
                     let payload = payload\<lparr>payload_Tags := tags\<rparr>;
                         payload = (if payload_Tags payload = None
                                    then payload\<lparr>payload_Tags := Some []\<rparr> else payload);
                         (useTLS, _) = RetrieveBooleanMultiPartFormValue r ''TLS'' True;
                         payload = payload\<lparr>payload_TLS := useTLS\<rparr>
                     in case Validate_TLS r payload of
                          Inl e \<Rightarrow> Inl e
                        | Inr payload \<Rightarrow> Validate_type_fields r payload)"

text \<open>
  \<open>snapshotAndPersistEndpoint\<close> and \<open>storeTLSFiles\<close> write through the endpoint pointer;
  the model returns the endpoint as the call leaves it, also when it returns an error.
\<close>

definition snapshotAndPersistEndpoint ::
  "Handler \<Rightarrow> Endpoint \<Rightarrow> World \<Rightarrow> (Endpoint \<times> HandlerError option) \<times> World" where
  "snapshotAndPersistEndpoint handler endpoint w =
     (let ((snapshot, err), w) = CreateSnapshot handler endpoint w;
          endpoint = endpoint\<lparr>Status := Some EndpointStatusUp\<rparr>;
          (endpoint, w) =
            (case err of
               Some e \<Rightarrow> (endpoint\<lparr>Status := Some EndpointStatusDown\<rparr>, log_Printf w)
             | None \<Rightarrow> (endpoint, w));
          endpoint =
            (case snapshot of
               Some s \<Rightarrow> endpoint\<lparr>Snapshots := [s]\<rparr>
             | None \<Rightarrow> endpoint);
          (err, w) = CreateEndpoint handler endpoint w
      in case err of
           Some e \<Rightarrow>
             ((endpoint,
               Some \<lparr>StatusCode = StatusInternalServerError,
                     Message = ''Unable to persist endpoint inside the database'', Err = e\<rparr>), w)
         | None \<Rightarrow> ((endpoint, None), w))"

text \<open>The three assignments \<open>endpoint.TLSConfig.TLS...Path = path\<close>.\<close>

definition set_TLSCACertPath :: "Endpoint \<Rightarrow> string \<Rightarrow> Endpoint" where
  "set_TLSCACertPath endpoint path =
     (let tlsConfig = TLSConfig endpoint
      in endpoint\<lparr>TLSConfig := tlsConfig\<lparr>TLSCACertPath := path\<rparr>\<rparr>)"

definition set_TLSCertPath :: "Endpoint \<Rightarrow> string \<Rightarrow> Endpoint" where
  "set_TLSCertPath endpoint path =
     (let tlsConfig = TLSConfig endpoint
      in endpoint\<lparr>TLSConfig := tlsConfig\<lparr>TLSCertPath := path\<rparr>\<rparr>)"

definition set_TLSKeyPath :: "Endpoint \<Rightarrow> string \<Rightarrow> Endpoint" where
  "set_TLSKeyPath endpoint path =
     (let tlsConfig = TLSConfig endpoint
      in endpoint\<lparr>TLSConfig := tlsConfig\<lparr>TLSKeyPath := path\<rparr>\<rparr>)"

text \<open>
  \<open>storeTLSFiles\<close>, cut after the CA block: \<open>storeTLSFiles_client\<close> is the block that
  stores the client certificate and key.
\<close>

definition storeTLSFiles_client ::
  "Handler \<Rightarrow> string \<Rightarrow> Endpoint \<Rightarrow> endpointCreatePayload \<Rightarrow> World
     \<Rightarrow> (Endpoint \<times> HandlerError option) \<times> World" where
  "storeTLSFiles_client handler folder endpoint payload w =
     (if \<not> payload_TLSSkipClientVerify payload then
        let ((certPath, err), w) =
              StoreTLSFileFromBytes handler folder TLSFileCert (payload_TLSCertFile payload) w
        in case err of
             Some e \<Rightarrow>
               ((endpoint,
                 Some \<lparr>StatusCode = StatusInternalServerError,
                       Message = ''Unable to persist TLS certificate file on disk'', Err = e\<rparr>), w)
           | None \<Rightarrow>
              (let endpoint = set_TLSCertPath endpoint certPath;
                   ((keyPath, err), w) =
                     StoreTLSFileFromBytes handler folder TLSFileKey (payload_TLSKeyFile payload) w
               in case err of
                    Some e \<Rightarrow>
                      ((endpoint,
                        Some \<lparr>StatusCode = StatusInternalServerError,
                              Message = ''Unable to persist TLS key file on disk'', Err = e\<rparr>), w)
                  | None \<Rightarrow>
                      ((set_TLSKeyPath endpoint keyPath, None), w))
      else ((endpoint, None), w))"

definition storeTLSFiles ::
  "Handler \<Rightarrow> Endpoint \<Rightarrow> endpointCreatePayload \<Rightarrow> World
     \<Rightarrow> (Endpoint \<times> HandlerError option) \<times> World" where
  "storeTLSFiles handler endpoint payload w =
     (let folder = Itoa (ID endpoint)
      in if \<not> payload_TLSSkipVerify payload then
           let ((caCertPath, err), w) =
                 StoreTLSFileFromBytes handler folder TLSFileCA (payload_TLSCACertFile payload) w
           in case err of
                Some e \<Rightarrow>
                  ((endpoint,
                    Some \<lparr>StatusCode = StatusInternalServerError,
                          Message = ''Unable to persist TLS CA certificate file on disk'',
                          Err = e\<rparr>), w)
              | None \<Rightarrow>
                  storeTLSFiles_client handler folder (set_TLSCACertPath endpoint caCertPath)
                    payload w
         else storeTLSFiles_client handler folder endpoint payload w)"

definition createAzureEndpoint ::
  "Packages \<Rightarrow> Handler \<Rightarrow> endpointCreatePayload \<Rightarrow> World
     \<Rightarrow> (Endpoint option \<times> HandlerError option) \<times> World" where
  "createAzureEndpoint pk handler payload w =
     (let credentials =
            \<lparr>ApplicationID = payload_AzureApplicationID payload,
             TenantID = payload_AzureTenantID payload,
             AuthenticationKey = payload_AzureAuthenticationKey payload\<rparr>;
          (err, w) = ExecuteAzureAuthenticationRequest pk credentials w
      in case err of
           Some e \<Rightarrow>
             ((None,
               Some \<lparr>StatusCode = StatusInternalServerError,
                     Message = ''Unable to authenticate against Azure'', Err = e\<rparr>), w)
         | None \<Rightarrow>
            (let (endpointID, w) = GetNextIdentifier w;
                 endpoint =
                   zero_Endpoint
                     \<lparr>ID := endpointID,
                      Name := payload_Name payload,
                      URL := ''https://management.azure.com'',
                      Type := AzureEnvironment,
                      GroupID := payload_GroupID payload,
                      PublicURL := payload_PublicURL payload,
                      AzureCredentials := credentials,
                      Tags := payload_Tags payload,
                      Status := Some EndpointStatusUp,
                      Snapshots := []\<rparr>;
                 (err, w) = CreateEndpoint handler endpoint w
             in case err of
                  Some e \<Rightarrow>
                    ((None,
                      Some \<lparr>StatusCode = StatusInternalServerError,
                            Message = ''Unable to persist endpoint inside the database'',
                            Err = e\<rparr>), w)
                | None \<Rightarrow> ((Some endpoint, None), w)))"

text \<open>\<open>randomInt\<close>: \<open>min + rand.Intn(max-min)\<close>, which panics with \<open>rand.Intn\<close>.\<close>

definition randomInt :: "Packages \<Rightarrow> int \<Rightarrow> int \<Rightarrow> World \<Rightarrow> (int \<times> World) option" where
  "randomInt pk min' max' w =
     (case rand_Intn pk (max' - min') w of
        None \<Rightarrow> None
      | Some (n, w) \<Rightarrow> Some (min' + n, w))"

text \<open>
  \<open>createEdgeAgentEndpoint\<close>. A panic of \<open>randomInt\<close> would unwind the handler after the
  identifier was taken; the model reports it as an error result with no record.
\<close>

definition createEdgeAgentEndpoint ::
  "Packages \<Rightarrow> Handler \<Rightarrow> endpointCreatePayload \<Rightarrow> World
     \<Rightarrow> (Endpoint option \<times> HandlerError option) \<times> World" where
  "createEdgeAgentEndpoint pk handler payload w =
     (let endpointType = EdgeAgentEnvironment;
          (endpointID, w) = GetNextIdentifier w
      in case randomInt pk 49152 65535 w of
           None \<Rightarrow>
             ((None,
               Some \<lparr>StatusCode = StatusInternalServerError, Message = ''panic'',
                     Err = ''invalid argument to Intn''\<rparr>), w)
         | Some (portnumber, w) \<Rightarrow>
            (let key =
                   \<lparr>TunnelServerAddr = TrimPrefix (payload_URL payload) ''tcp://'',
                    TunnelServerPort = ''8000'',
                    TunnelPort = Itoa portnumber,
                    TunnelServerFingerprint = handler_TunnelServerFingerprint handler,
                    Credentials = ''agent@randomstring''\<rparr>;
                 (marshaledKey, err) = json_Marshal pk key
             in case err of
                  Some e \<Rightarrow>
                    ((None,
                      Some \<lparr>StatusCode = StatusInternalServerError,
                            Message = ''Unable to encode Edge key'', Err = e\<rparr>), w)
                | None \<Rightarrow>
                   (let keyHash = HashFromBytes pk marshaledKey;
                        encodedKey = RawStdEncoding_EncodeToString keyHash;
                        endpoint =
                          zero_Endpoint
                            \<lparr>ID := endpointID,
                             Name := payload_Name payload,
                             URL := ''tcp://localhost:'' @ Itoa portnumber,
                             Type := endpointType,
                             GroupID := payload_GroupID payload,
                             TLSConfig := zero_TLSConfiguration\<lparr>TLS := False\<rparr>,
                             Tags := payload_Tags payload,
                             Status := Some EndpointStatusUp,
                             Snapshots := [],
                             EdgeKey := encodedKey\<rparr>;
                        (err, w) = CreateEndpoint handler endpoint w
                    in case err of
                         Some e \<Rightarrow>
                           ((None,
                             Some \<lparr>StatusCode = StatusInternalServerError,
                                   Message = ''Unable to persist endpoint inside the database'',
                                   Err = e\<rparr>), w)
                       | None \<Rightarrow> ((Some endpoint, None), w))))"

text \<open>
  \<open>createUnsecuredEndpoint\<close>. The first block either fills in the local socket or pings
  the URL; \<open>unsecured_probe\<close> is that block, with the early return of a failed ping as
  its first component, and the assignments to \<open>payload.URL\<close> and \<open>endpointType\<close> as the
  second and third.
\<close>

definition unsecured_probe ::
  "Packages \<Rightarrow> endpointCreatePayload \<Rightarrow> World
     \<Rightarrow> (HandlerError option \<times> endpointCreatePayload \<times> EndpointType) \<times> World" where
  "unsecured_probe pk payload w =
     (let endpointType = DockerEnvironment
      in if payload_URL payload = [] then
           let payload = payload\<lparr>payload_URL := ''unix:///var/run/docker.sock''\<rparr>;
               payload = (if runtime_GOOS pk = ''windows''
                          then payload\<lparr>payload_URL := ''npipe:////./pipe/docker_engine''\<rparr>
                          else payload)
           in ((None, payload, endpointType), w)
         else
           let ((agentOnDockerEnvironment, err), w) =
                 ExecutePingOperation pk (payload_URL payload) None w
           in case err of
                Some e \<Rightarrow>
                  ((Some \<lparr>StatusCode = StatusInternalServerError,
                          Message = ''Unable to ping Docker environment'', Err = e\<rparr>,
                    payload, endpointType), w)
              | None \<Rightarrow>
                  ((None, payload,
                    if agentOnDockerEnvironment then AgentOnDockerEnvironment else endpointType), w))"

definition createUnsecuredEndpoint ::
  "Packages \<Rightarrow> Handler \<Rightarrow> endpointCreatePayload \<Rightarrow> World
     \<Rightarrow> (Endpoint option \<times> HandlerError option) \<times> World" where
  "createUnsecuredEndpoint pk handler payload w =
     (let ((pingError, payload, endpointType), w) = unsecured_probe pk payload w
      in case pingError of
           Some herr \<Rightarrow> ((None, Some herr), w)
         | None \<Rightarrow>
            (let (endpointID, w) = GetNextIdentifier w;
                 endpoint =
                   zero_Endpoint
                     \<lparr>ID := endpointID,
                      Name := payload_Name payload,
                      URL := payload_URL payload,
                      Type := endpointType,
                      GroupID := payload_GroupID payload,
                      PublicURL := payload_PublicURL payload,
                      TLSConfig := zero_TLSConfiguration\<lparr>TLS := False\<rparr>,
                      Tags := payload_Tags payload,
                      Status := Some EndpointStatusUp,
                      Snapshots := []\<rparr>;
                 ((endpoint, err), w) = snapshotAndPersistEndpoint handler endpoint w
             in case err of
                  Some herr \<Rightarrow> ((None, Some herr), w)
                | None \<Rightarrow> ((Some endpoint, None), w)))"

text \<open>
  \<open>createTLSSecuredEndpoint\<close>. After the ping the variable \<open>err\<close> holds the ping's error,
  and the test that follows \<open>storeTLSFiles\<close> reads \<open>err\<close>, not \<open>filesystemError\<close>.
\<close>

definition createTLSSecuredEndpoint ::
  "Packages \<Rightarrow> Handler \<Rightarrow> endpointCreatePayload \<Rightarrow> World
     \<Rightarrow> (Endpoint option \<times> HandlerError option) \<times> World" where
  "createTLSSecuredEndpoint pk handler payload w =
     (let (tlsConfig, err) =
            crypto_CreateTLSConfigurationFromBytes pk
              (payload_TLSCACertFile payload) (payload_TLSCertFile payload)
              (payload_TLSKeyFile payload) (payload_TLSSkipClientVerify payload)
              (payload_TLSSkipVerify payload)
      in case err of
           Some e \<Rightarrow>
             ((None,
               Some \<lparr>StatusCode = StatusInternalServerError,
                     Message = ''Unable to create TLS configuration'', Err = e\<rparr>), w)
         | None \<Rightarrow>
            (let ((agentOnDockerEnvironment, err), w) =
                   ExecutePingOperation pk (payload_URL payload) tlsConfig w
             in case err of
                  Some e \<Rightarrow>
                    ((None,
                      Some \<lparr>StatusCode = StatusInternalServerError,
                            Message = ''Unable to ping Docker environment'', Err = e\<rparr>), w)
                | None \<Rightarrow>
                   (let endpointType =
                          (if agentOnDockerEnvironment then AgentOnDockerEnvironment
                           else DockerEnvironment);
                        (endpointID, w) = GetNextIdentifier w;
                        endpoint =
                          zero_Endpoint
                            \<lparr>ID := endpointID,
                             Name := payload_Name payload,
                             URL := payload_URL payload,
                             Type := endpointType,
                             GroupID := payload_GroupID payload,
                             PublicURL := payload_PublicURL payload,
                             TLSConfig :=
                               zero_TLSConfiguration
                                 \<lparr>TLS := payload_TLS payload,
                                  TLSSkipVerify := payload_TLSSkipVerify payload\<rparr>,
                             Tags := payload_Tags payload,
                             Status := Some EndpointStatusUp,
                             Snapshots := []\<rparr>;
                        ((endpoint, filesystemError), w) = storeTLSFiles handler endpoint payload w
                    in if err \<noteq> None then ((None, filesystemError), w)
                       else
                         let ((endpoint, endpointCreationError), w) =
                               snapshotAndPersistEndpoint handler endpoint w
                         in case endpointCreationError of
                              Some herr \<Rightarrow> ((None, Some herr), w)
                            | None \<Rightarrow> ((Some endpoint, None), w))))"

definition createEndpoint ::
  "Packages \<Rightarrow> Handler \<Rightarrow> endpointCreatePayload \<Rightarrow> World
     \<Rightarrow> (Endpoint option \<times> HandlerError option) \<times> World" where
  "createEndpoint pk handler payload w =
     (if payload_EndpointType payload = AzureEnvironment
      then createAzureEndpoint pk handler payload w
      else if payload_EndpointType payload = EdgeAgentEnvironment
      then createEdgeAgentEndpoint pk handler payload w
      else if payload_TLS payload
      then createTLSSecuredEndpoint pk handler payload w
      else createUnsecuredEndpoint pk handler payload w)"

text \<open>
  \<open>endpointCreate\<close>, the handler of \<open>POST /api/endpoints\<close>: the response is either the
  error the handler returns or the JSON body written for the endpoint.
\<close>

datatype Response = ResponseError HandlerError | ResponseJSON "Endpoint option"

definition endpointCreate :: "Packages \<Rightarrow> Handler \<Rightarrow> Request \<Rightarrow> World \<Rightarrow> Response \<times> World" where
  "endpointCreate pk handler r w =
     (if \<not> handler_authorizeEndpointManagement handler
      then (ResponseError
              \<lparr>StatusCode = StatusServiceUnavailable,
               Message = ''Endpoint management is disabled'',
               Err = ErrEndpointManagementDisabled\<rparr>, w)
      else
        case Validate pk r of
          Inl err \<Rightarrow>
            (ResponseError
               \<lparr>StatusCode = StatusBadRequest, Message = ''Invalid request payload'',
                Err = err\<rparr>, w)
        | Inr payload \<Rightarrow>
           (let ((endpoint, endpointCreationError), w) = createEndpoint pk handler payload w
            in case endpointCreationError of
                 Some herr \<Rightarrow> (ResponseError herr, w)
               | None \<Rightarrow> (ResponseJSON endpoint, w)))"

subsection \<open>Notions used by the properties\<close>

text \<open>The calls that probe a remote environment: the ping and the Azure authentication.\<close>

fun is_probe :: "Call \<Rightarrow> bool" where
  "is_probe (CallExecutePingOperation url tls) = True"
| "is_probe CallExecuteAzureAuthenticationRequest = True"
| "is_probe c = False"

text \<open>The classes of HTTP status codes: 4xx is a client error, 5xx a server error.\<close>

definition client_error :: "HandlerError \<Rightarrow> bool" where
  "client_error herr = (400 \<le> StatusCode herr \<and> StatusCode herr < 500)"

definition server_error :: "HandlerError \<Rightarrow> bool" where
  "server_error herr = (500 \<le> StatusCode herr \<and> StatusCode herr < 600)"

subsection \<open>Concrete collaborators, requests and payloads\<close>

text \<open>
  A setting in which everything answers: the engine is reachable and is a plain engine,
  Azure accepts the credentials, the TLS material parses, the digest of any input is
  sixteen bytes \<open>0xFF\<close>, and the store, the snapshotter and the file store succeed.
\<close>

definition digest_FF :: "byte list" where
  "digest_FF = replicate 16 0xFF"

definition example_Packages :: Packages where
  "example_Packages =
     \<lparr>client_ExecutePingOperation = (\<lambda>url tlsConfig. (False, None)),
      client_ExecuteAzureAuthenticationRequest = (\<lambda>credentials. None),
      crypto_CreateTLSConfigurationFromBytes =
        (\<lambda>caCert cert key skipClientVerification skipServerVerification.
           (Some (tls_Config ''client''), None)),
      crypto_digest_size = 16,
      crypto_digest_byte = (\<lambda>data position. 0xFF),
      json_Marshal =
        (\<lambda>key. (map (\<lambda>c. of_nat (of_char c))
                     (TunnelServerAddr key @ '':'' @ TunnelServerPort key @ '':''
                      @ TunnelPort key @ '':'' @ TunnelServerFingerprint key @ '':''
                      @ Credentials key), None)),
      json_Unmarshal =
        (\<lambda>text. if text = ''[]'' then (Some [], None)
                else if text = ''null'' then (None, None)
                else (None, Some ''invalid character'')),
      rand_source = (\<lambda>i. 12345 + i),
      runtime_GOOS = ''linux''\<rparr>"

definition example_Handler :: Handler where
  "example_Handler =
     \<lparr>handler_authorizeEndpointManagement = True,
      handler_TunnelServerFingerprint = ''3a:6f:52'',
      handler_EndpointService_CreateEndpoint = (\<lambda>endpoint. None),
      handler_Snapshotter_CreateSnapshot = (\<lambda>endpoint. (Some (Snapshot ''inventory''), None)),
      handler_FileService_StoreTLSFileFromBytes =
        (\<lambda>folder fileType r.
           (''/data/tls/'' @ folder @
              (case fileType of
                 TLSFileCA \<Rightarrow> ''/ca.pem''
               | TLSFileCert \<Rightarrow> ''/cert.pem''
               | TLSFileKey \<Rightarrow> ''/key.pem''), None))\<rparr>"

definition empty_World :: World where
  "empty_World = \<lparr>sequence = 0, persisted = [], rand_calls = 0, calls = []\<rparr>"

text \<open>The engine does not answer the ping and Azure rejects the credentials.\<close>

definition unreachable_Packages :: Packages where
  "unreachable_Packages =
     example_Packages
       \<lparr>client_ExecutePingOperation := (\<lambda>url tlsConfig. (False, Some ''connection refused'')),
        client_ExecuteAzureAuthenticationRequest := (\<lambda>credentials. Some ''invalid client secret'')\<rparr>"

text \<open>The certificate bytes do not parse.\<close>

definition badTLS_Packages :: Packages where
  "badTLS_Packages =
     example_Packages
       \<lparr>crypto_CreateTLSConfigurationFromBytes :=
          (\<lambda>caCert cert key skipClientVerification skipServerVerification.
             (None, Some ''tls: failed to find any PEM data in certificate input''))\<rparr>"

text \<open>The snapshotter cannot reach the engine.\<close>

definition nosnapshot_Handler :: Handler where
  "nosnapshot_Handler =
     example_Handler
       \<lparr>handler_Snapshotter_CreateSnapshot := (\<lambda>endpoint. (None, Some ''cannot connect to the Docker daemon''))\<rparr>"

text \<open>The file store accepts the CA certificate and then fails.\<close>

definition diskfull_Handler :: Handler where
  "diskfull_Handler =
     example_Handler
       \<lparr>handler_FileService_StoreTLSFileFromBytes :=
          (\<lambda>folder fileType r.
             if fileType = TLSFileCA then (''/data/tls/'' @ folder @ ''/ca.pem'', None)
             else ([], Some ''no space left on device''))\<rparr>"

definition docker_payload :: endpointCreatePayload where
  "docker_payload =
     zero_payload
       \<lparr>payload_Name := ''prod1'', payload_URL := ''tcp://10.0.0.5:2375'',
        payload_EndpointType := 1, payload_GroupID := 1, payload_Tags := Some []\<rparr>"

definition local_payload :: endpointCreatePayload where
  "local_payload = docker_payload\<lparr>payload_Name := ''local'', payload_URL := []\<rparr>"

definition tls_payload :: endpointCreatePayload where
  "tls_payload =
     docker_payload
       \<lparr>payload_URL := ''tcp://10.0.0.5:2376'', payload_TLS := True,
        payload_TLSCACertFile := [1, 2, 3], payload_TLSCertFile := [4, 5, 6],
        payload_TLSKeyFile := [7, 8, 9]\<rparr>"

definition azure_payload :: endpointCreatePayload where
  "azure_payload =
     zero_payload
       \<lparr>payload_Name := ''cloud1'', payload_URL := ''tcp://ignored:1'',
        payload_EndpointType := 3, payload_GroupID := 1,
        payload_AzureApplicationID := ''x'', payload_AzureTenantID := ''y'',
        payload_AzureAuthenticationKey := ''z'', payload_Tags := Some []\<rparr>"

definition edge_payload :: endpointCreatePayload where
  "edge_payload =
     zero_payload
       \<lparr>payload_Name := ''edge1'', payload_URL := ''tcp://portainer.example.org'',
        payload_EndpointType := 4, payload_GroupID := 1, payload_Tags := Some []\<rparr>"

text \<open>A form with a name and the type code 5, and one that also has a malformed \<open>Tags\<close>.\<close>

definition type5_Request :: Request where
  "type5_Request =
     \<lparr>FormValue =
        (\<lambda>name. if name = ''Name'' then ''prod1''
                else if name = ''EndpointType'' then ''5''
                else []),
      FormFile = (\<lambda>name. ([], Some ''http: no such file''))\<rparr>"

definition docker_Request :: Request where
  "docker_Request =
     \<lparr>FormValue =
        (\<lambda>name. if name = ''Name'' then ''prod1''
                else if name = ''EndpointType'' then ''1''
                else if name = ''URL'' then ''tcp://10.0.0.5:2375''
                else []),
      FormFile = (\<lambda>name. ([], Some ''http: no such file''))\<rparr>"

definition badtags_Request :: Request where
  "badtags_Request =
     \<lparr>FormValue =
        (\<lambda>name. if name = ''Name'' then ''prod1''
                else if name = ''EndpointType'' then ''1''
                else if name = ''URL'' then ''tcp://10.0.0.5:2375''
                else if name = ''Tags'' then ''[prod''
                else []),
      FormFile = (\<lambda>name. ([], Some ''http: no such file''))\<rparr>"

section \<open>Properties\<close>

subsection \<open>Auxiliary facts\<close>

lemmas effect_defs =
  ExecutePingOperation_def ExecuteAzureAuthenticationRequest_def GetNextIdentifier_def
  CreateEndpoint_def CreateSnapshot_def StoreTLSFileFromBytes_def log_Printf_def

lemmas type_defs =
  DockerEnvironment_def AgentOnDockerEnvironment_def AzureEnvironment_def
  EdgeAgentEnvironment_def

lemmas example_defs =
  example_Packages_def example_Handler_def empty_World_def unreachable_Packages_def
  badTLS_Packages_def nosnapshot_Handler_def diskfull_Handler_def docker_payload_def
  local_payload_def tls_payload_def azure_payload_def edge_payload_def zero_payload_def
  zero_Endpoint_def zero_TLSConfiguration_def zero_AzureCredentials_def






lemma example_HashFromBytes: "HashFromBytes example_Packages data = digest_FF"
  by (simp add: HashFromBytes_def example_Packages_def digest_FF_def map_replicate_const)



text \<open>The port drawn for an Edge tunnel: \<open>randomInt\<close> never panics on the dynamic range.\<close>

lemma randomInt_dynamic_range:
  "\<exists>port. randomInt pk 49152 65535 w = Some (port, w\<lparr>rand_calls := rand_calls w + 1\<rparr>)
          \<and> 49152 \<le> port \<and> port < 65535"
  by (simp add: randomInt_def rand_Intn_def)

lemma Itoa_61497: "Itoa 61497 = ''61497''"
  by (simp add: Itoa_def nat_digits.simps digits_def)

text \<open>What the helpers that write through the endpoint pointer change, and what they keep.\<close>

lemma snapshotAndPersistEndpoint_endpoint:
  assumes "snapshotAndPersistEndpoint handler endpoint w = ((endpoint', herr), w')"
  shows "endpoint' = endpoint
           \<lparr>Status := Some (if snd (handler_Snapshotter_CreateSnapshot handler endpoint) = None
                            then EndpointStatusUp else EndpointStatusDown),
            Snapshots := (case fst (handler_Snapshotter_CreateSnapshot handler endpoint) of
                            Some s \<Rightarrow> [s] | None \<Rightarrow> Snapshots endpoint)\<rparr>"
  using assms
  by (auto simp: snapshotAndPersistEndpoint_def effect_defs Let_def split: option.splits prod.splits)

lemma snapshotAndPersistEndpoint_world:
  assumes "snapshotAndPersistEndpoint handler endpoint w = ((endpoint', herr), w')"
  shows "sequence w' = sequence w \<and> rand_calls w' = rand_calls w
       \<and> filter is_probe (calls w') = filter is_probe (calls w)
       \<and> (case handler_EndpointService_CreateEndpoint handler endpoint' of
             None \<Rightarrow> herr = None \<and> persisted w' = persisted w @ [endpoint']
           | Some e \<Rightarrow> herr = Some \<lparr>StatusCode = StatusInternalServerError,
                     Message = ''Unable to persist endpoint inside the database'', Err = e\<rparr>
                  \<and> persisted w' = persisted w)"
  using assms
  by (auto simp: snapshotAndPersistEndpoint_def effect_defs Let_def split: option.splits prod.splits)

lemma storeTLSFiles_client_frame:
  assumes "storeTLSFiles_client handler folder endpoint payload w = ((endpoint', herr), w')"
  shows "sequence w' = sequence w \<and> rand_calls w' = rand_calls w \<and> persisted w' = persisted w
       \<and> filter is_probe (calls w') = filter is_probe (calls w)
       \<and> Tags endpoint' = Tags endpoint \<and> URL endpoint' = URL endpoint \<and> Type endpoint' = Type endpoint"
  using assms
  by (auto simp: storeTLSFiles_client_def set_TLSCertPath_def set_TLSKeyPath_def effect_defs Let_def split: option.splits prod.splits if_splits)

lemma storeTLSFiles_frame:
  assumes "storeTLSFiles handler endpoint payload w = ((endpoint', herr), w')"
  shows "sequence w' = sequence w \<and> rand_calls w' = rand_calls w \<and> persisted w' = persisted w
       \<and> filter is_probe (calls w') = filter is_probe (calls w)
       \<and> Tags endpoint' = Tags endpoint \<and> URL endpoint' = URL endpoint \<and> Type endpoint' = Type endpoint"
  using assms storeTLSFiles_client_frame[of handler "Itoa (ID endpoint)" _ payload _ endpoint' herr w']
  by (auto simp: storeTLSFiles_def set_TLSCACertPath_def effect_defs Let_def split: option.splits prod.splits if_splits)

text \<open>The parser never leaves the tags nil, and the later blocks do not touch them.\<close>

lemma Validate_TLS_tags:
  "Validate_TLS r payload = Inr payload' \<Longrightarrow> payload_Tags payload' = payload_Tags payload"
  by (auto simp: Validate_TLS_def Validate_TLSCACertFile_def Validate_TLSClientFiles_def Let_def
           split: if_splits prod.splits sum.splits)

lemma Validate_type_fields_tags:
  "Validate_type_fields r payload = Inr payload' \<Longrightarrow> payload_Tags payload' = payload_Tags payload"
  by (auto simp: Validate_type_fields_def Let_def split: if_splits prod.splits)

lemma Validate_tags:
  assumes "Validate pk r = Inr payload"
  shows "payload_Tags payload \<noteq> None
       \<and> (FormValue r ''Tags'' = [] \<longrightarrow> payload_Tags payload = Some [])"
  using assms
  by (auto simp: Validate_def RetrieveMultiPartFormJSONValue_def RetrieveMultiPartFormValue_def
                 Let_def
           split: if_splits prod.splits sum.splits
           dest!: Validate_TLS_tags Validate_type_fields_tags)

lemma Validate_bad_tags:
  assumes "FormValue r ''Tags'' \<noteq> []"
    and "snd (json_Unmarshal pk (FormValue r ''Tags'')) \<noteq> None"
  shows "\<exists>msg. Validate pk r = Inl msg"
  using assms
  by (auto simp: Validate_def RetrieveMultiPartFormJSONValue_def RetrieveMultiPartFormValue_def
                 Let_def
           split: if_splits prod.splits sum.splits)

text \<open>Every constructor stores at most one record, and the record carries the payload's tags.\<close>

lemma createAzureEndpoint_tags:
  assumes "createAzureEndpoint pk handler payload w = ((result, herr), w')"
  shows "(persisted w' = persisted w
          \<or> (\<exists>endpoint. persisted w' = persisted w @ [endpoint] \<and> Tags endpoint = payload_Tags payload))
       \<and> (herr = None \<longrightarrow> (\<exists>endpoint. result = Some endpoint \<and> Tags endpoint = payload_Tags payload))"
  using assms
  by (auto simp: createAzureEndpoint_def effect_defs Let_def split: option.splits prod.splits)

lemma createEdgeAgentEndpoint_tags:
  assumes "createEdgeAgentEndpoint pk handler payload w = ((result, herr), w')"
  shows "(persisted w' = persisted w
          \<or> (\<exists>endpoint. persisted w' = persisted w @ [endpoint] \<and> Tags endpoint = payload_Tags payload))
       \<and> (herr = None \<longrightarrow> (\<exists>endpoint. result = Some endpoint \<and> Tags endpoint = payload_Tags payload))"
  using assms
  by (auto simp: createEdgeAgentEndpoint_def randomInt_def rand_Intn_def effect_defs Let_def
           split: option.splits prod.splits)

lemma createUnsecuredEndpoint_tags:
  assumes "createUnsecuredEndpoint pk handler payload w = ((result, herr), w')"
  shows "(persisted w' = persisted w
          \<or> (\<exists>endpoint. persisted w' = persisted w @ [endpoint] \<and> Tags endpoint = payload_Tags payload))
       \<and> (herr = None \<longrightarrow> (\<exists>endpoint. result = Some endpoint \<and> Tags endpoint = payload_Tags payload))"
  using assms
  by (auto simp: createUnsecuredEndpoint_def unsecured_probe_def snapshotAndPersistEndpoint_def
                 effect_defs Let_def
           split: option.splits prod.splits if_splits)

lemma createTLSSecuredEndpoint_tags:
  assumes "createTLSSecuredEndpoint pk handler payload w = ((result, herr), w')"
  shows "(persisted w' = persisted w
          \<or> (\<exists>endpoint. persisted w' = persisted w @ [endpoint] \<and> Tags endpoint = payload_Tags payload))
       \<and> (herr = None \<longrightarrow> (\<exists>endpoint. result = Some endpoint \<and> Tags endpoint = payload_Tags payload))"
proof (cases "snd (crypto_CreateTLSConfigurationFromBytes pk
              (payload_TLSCACertFile payload) (payload_TLSCertFile payload)
              (payload_TLSKeyFile payload) (payload_TLSSkipClientVerify payload)
              (payload_TLSSkipVerify payload))")
  case (Some e)
  with assms show ?thesis
    by (auto simp: createTLSSecuredEndpoint_def Let_def split: prod.splits)
next
  case None
  obtain tlsConfig where c: "crypto_CreateTLSConfigurationFromBytes pk
              (payload_TLSCACertFile payload) (payload_TLSCertFile payload)
              (payload_TLSKeyFile payload) (payload_TLSSkipClientVerify payload)
              (payload_TLSSkipVerify payload) = (tlsConfig, None)"
    using None by (metis prod.collapse)
  show ?thesis
  proof (cases "snd (client_ExecutePingOperation pk (payload_URL payload) tlsConfig)")
    case (Some e)
    with assms c show ?thesis
      by (auto simp: createTLSSecuredEndpoint_def ExecutePingOperation_def Let_def
               split: prod.splits)
  next
    case None
    obtain agent where p: "client_ExecutePingOperation pk (payload_URL payload) tlsConfig = (agent, None)"
      using None by (metis prod.collapse)
    define w1 where "w1 = snd (GetNextIdentifier (w\<lparr>calls := calls w @ [CallExecutePingOperation (payload_URL payload) (tlsConfig \<noteq> None)]\<rparr>))"
    define endpoint0 where "endpoint0 = zero_Endpoint
                            \<lparr>ID := sequence w + 1,
                             Name := payload_Name payload,
                             URL := payload_URL payload,
                             Type := (if agent then AgentOnDockerEnvironment else DockerEnvironment),
                             GroupID := payload_GroupID payload,
                             PublicURL := payload_PublicURL payload,
                             TLSConfig :=
                               zero_TLSConfiguration
                                 \<lparr>TLS := payload_TLS payload,
                                  TLSSkipVerify := payload_TLSSkipVerify payload\<rparr>,
                             Tags := payload_Tags payload,
                             Status := Some EndpointStatusUp,
                             Snapshots := []\<rparr>"
    obtain endpoint1 fsErr w2 where s: "storeTLSFiles handler endpoint0 payload w1 = ((endpoint1, fsErr), w2)"
      by (metis prod.collapse)
    obtain endpoint2 perr w3 where sp: "snapshotAndPersistEndpoint handler endpoint1 w2 = ((endpoint2, perr), w3)"
      by (metis prod.collapse)
    have res: "((result, herr), w') = (case perr of Some herr \<Rightarrow> ((None, Some herr), w3) | None \<Rightarrow> ((Some endpoint2, None), w3))"
      using assms c p s sp
      by (simp add: createTLSSecuredEndpoint_def ExecutePingOperation_def GetNextIdentifier_def Let_def w1_def endpoint0_def)
    have t1: "Tags endpoint1 = payload_Tags payload" "persisted w2 = persisted w"
      using storeTLSFiles_frame [OF s] by (simp_all add: endpoint0_def w1_def GetNextIdentifier_def)
    have t2: "Tags endpoint2 = payload_Tags payload"
      using snapshotAndPersistEndpoint_endpoint [OF sp] t1 by simp
    show ?thesis
      using res t1 t2 snapshotAndPersistEndpoint_world [OF sp]
      by (auto split: option.splits)
  qed
qed

lemma createEndpoint_tags:
  assumes "createEndpoint pk handler payload w = ((result, herr), w')"
  shows "(persisted w' = persisted w
          \<or> (\<exists>endpoint. persisted w' = persisted w @ [endpoint] \<and> Tags endpoint = payload_Tags payload))
       \<and> (herr = None \<longrightarrow> (\<exists>endpoint. result = Some endpoint \<and> Tags endpoint = payload_Tags payload))"
  using assms createAzureEndpoint_tags createEdgeAgentEndpoint_tags createUnsecuredEndpoint_tags
    createTLSSecuredEndpoint_tags
  unfolding createEndpoint_def by (simp split: if_splits)

text \<open>The Edge registration of the example setting, evaluated.\<close>

lemma edge_example_result:
  "createEndpoint example_Packages example_Handler edge_payload empty_World =
     ((Some (zero_Endpoint
               \<lparr>ID := 1, Name := ''edge1'', URL := ''tcp://localhost:61497'',
                Type := EdgeAgentEnvironment, GroupID := 1, Tags := Some [],
                Status := Some EndpointStatusUp,
                EdgeKey := RawStdEncoding_EncodeToString digest_FF\<rparr>), None),
      \<lparr>sequence = 1,
       persisted = [zero_Endpoint
               \<lparr>ID := 1, Name := ''edge1'', URL := ''tcp://localhost:61497'',
                Type := EdgeAgentEnvironment, GroupID := 1, Tags := Some [],
                Status := Some EndpointStatusUp,
                EdgeKey := RawStdEncoding_EncodeToString digest_FF\<rparr>],
       rand_calls = 1, calls = [CallGetNextIdentifier, CallCreateEndpoint 1]\<rparr>)"
  unfolding createEndpoint_def createEdgeAgentEndpoint_def example_HashFromBytes
  by (simp add: randomInt_def rand_Intn_def effect_defs example_defs type_defs Let_def
        Itoa_61497)

text \<open>The other runs of the example settings, evaluated.\<close>

lemmas run_defs =
  createEndpoint_def createAzureEndpoint_def createEdgeAgentEndpoint_def
  createUnsecuredEndpoint_def unsecured_probe_def createTLSSecuredEndpoint_def
  snapshotAndPersistEndpoint_def storeTLSFiles_def storeTLSFiles_client_def
  set_TLSCACertPath_def set_TLSCertPath_def set_TLSKeyPath_def
  randomInt_def rand_Intn_def StatusInternalServerError_def StatusBadRequest_def
  StatusServiceUnavailable_def Let_def

lemmas validate_defs =
  Validate_def Validate_TLS_def Validate_TLSCACertFile_def Validate_TLSClientFiles_def
  Validate_type_fields_def RetrieveMultiPartFormValue_def RetrieveNumericMultiPartFormValue_def
  RetrieveBooleanMultiPartFormValue_def RetrieveMultiPartFormJSONValue_def
  RetrieveMultiPartFormFile_def Atoi_def is_digit_def

lemma Itoa_1: "Itoa 1 = ''1''"
  by (simp add: Itoa_def nat_digits.simps digits_def)

lemma docker_unreachable_result:
  "createEndpoint unreachable_Packages example_Handler docker_payload empty_World =
     ((None, Some \<lparr>StatusCode = 500, Message = ''Unable to ping Docker environment'',
                   Err = ''connection refused''\<rparr>),
      \<lparr>sequence = 0, persisted = [], rand_calls = 0,
       calls = [CallExecutePingOperation ''tcp://10.0.0.5:2375'' False]\<rparr>)"
  by (simp add: run_defs effect_defs example_defs type_defs)

lemma tls_unparsed_result:
  "createEndpoint badTLS_Packages example_Handler tls_payload empty_World =
     ((None, Some \<lparr>StatusCode = 500, Message = ''Unable to create TLS configuration'',
                   Err = ''tls: failed to find any PEM data in certificate input''\<rparr>),
      empty_World)"
  by (simp add: run_defs effect_defs example_defs type_defs)

lemma local_result:
  "createEndpoint example_Packages example_Handler local_payload empty_World =
     ((Some (zero_Endpoint
               \<lparr>ID := 1, Name := ''local'', URL := ''unix:///var/run/docker.sock'',
                Type := DockerEnvironment, GroupID := 1, Tags := Some [],
                Status := Some EndpointStatusUp, Snapshots := [Snapshot ''inventory'']\<rparr>), None),
      \<lparr>sequence = 1,
       persisted = [zero_Endpoint
               \<lparr>ID := 1, Name := ''local'', URL := ''unix:///var/run/docker.sock'',
                Type := DockerEnvironment, GroupID := 1, Tags := Some [],
                Status := Some EndpointStatusUp, Snapshots := [Snapshot ''inventory'']\<rparr>],
       rand_calls = 0,
       calls = [CallGetNextIdentifier, CallCreateSnapshot, CallCreateEndpoint 1]\<rparr>)"
  by (simp add: run_defs effect_defs example_defs type_defs)

lemma local_windows_result:
  "createEndpoint (example_Packages\<lparr>runtime_GOOS := ''windows''\<rparr>) example_Handler local_payload
       empty_World =
     ((Some (zero_Endpoint
               \<lparr>ID := 1, Name := ''local'', URL := ''npipe:////./pipe/docker_engine'',
                Type := DockerEnvironment, GroupID := 1, Tags := Some [],
                Status := Some EndpointStatusUp, Snapshots := [Snapshot ''inventory'']\<rparr>), None),
      \<lparr>sequence = 1,
       persisted = [zero_Endpoint
               \<lparr>ID := 1, Name := ''local'', URL := ''npipe:////./pipe/docker_engine'',
                Type := DockerEnvironment, GroupID := 1, Tags := Some [],
                Status := Some EndpointStatusUp, Snapshots := [Snapshot ''inventory'']\<rparr>],
       rand_calls = 0,
       calls = [CallGetNextIdentifier, CallCreateSnapshot, CallCreateEndpoint 1]\<rparr>)"
  by (simp add: run_defs effect_defs example_defs type_defs)

lemma tls_diskfull_result:
  "createEndpoint example_Packages diskfull_Handler tls_payload empty_World =
     ((Some (zero_Endpoint
               \<lparr>ID := 1, Name := ''prod1'', URL := ''tcp://10.0.0.5:2376'',
                Type := DockerEnvironment, GroupID := 1,
                TLSConfig := \<lparr>TLS = True, TLSSkipVerify = False,
                               TLSCACertPath = ''/data/tls/1/ca.pem'', TLSCertPath = [],
                               TLSKeyPath = []\<rparr>,
                Tags := Some [],
                Status := Some EndpointStatusUp, Snapshots := [Snapshot ''inventory'']\<rparr>), None),
      \<lparr>sequence = 1,
       persisted = [zero_Endpoint
               \<lparr>ID := 1, Name := ''prod1'', URL := ''tcp://10.0.0.5:2376'',
                Type := DockerEnvironment, GroupID := 1,
                TLSConfig := \<lparr>TLS = True, TLSSkipVerify = False,
                               TLSCACertPath = ''/data/tls/1/ca.pem'', TLSCertPath = [],
                               TLSKeyPath = []\<rparr>,
                Tags := Some [],
                Status := Some EndpointStatusUp, Snapshots := [Snapshot ''inventory'']\<rparr>],
       rand_calls = 0,
       calls = [CallExecutePingOperation ''tcp://10.0.0.5:2376'' True, CallGetNextIdentifier,
                CallStoreTLSFileFromBytes ''1'' TLSFileCA, CallStoreTLSFileFromBytes ''1'' TLSFileCert,
                CallCreateSnapshot, CallCreateEndpoint 1]\<rparr>)"
  by (simp add: run_defs effect_defs example_defs type_defs Itoa_1)

lemma type5_validate:
  "Validate example_Packages type5_Request =
     Inr (zero_payload\<lparr>payload_Name := ''prod1'', payload_EndpointType := 5,
                        payload_GroupID := 1, payload_Tags := Some []\<rparr>)"
  by (simp add: validate_defs type5_Request_def zero_payload_def example_Packages_def type_defs Let_def)

lemma docker_validate:
  "Validate example_Packages docker_Request =
     Inr (zero_payload\<lparr>payload_Name := ''prod1'', payload_URL := ''tcp://10.0.0.5:2375'',
                        payload_EndpointType := 1,
                        payload_GroupID := 1, payload_Tags := Some []\<rparr>)"
  by (simp add: validate_defs docker_Request_def zero_payload_def example_Packages_def type_defs Let_def)

lemma badtags_validate:
  "Validate example_Packages badtags_Request = Inl ''Invalid Tags parameter''"
  by (simp add: validate_defs badtags_Request_def zero_payload_def example_Packages_def type_defs Let_def)

lemma docker_request_result:
  "endpointCreate example_Packages example_Handler docker_Request empty_World =
     (ResponseJSON
        (Some (zero_Endpoint
               \<lparr>ID := 1, Name := ''prod1'', URL := ''tcp://10.0.0.5:2375'',
                Type := DockerEnvironment, GroupID := 1, Tags := Some [],
                Status := Some EndpointStatusUp, Snapshots := [Snapshot ''inventory'']\<rparr>)),
      \<lparr>sequence = 1,
       persisted = [zero_Endpoint
               \<lparr>ID := 1, Name := ''prod1'', URL := ''tcp://10.0.0.5:2375'',
                Type := DockerEnvironment, GroupID := 1, Tags := Some [],
                Status := Some EndpointStatusUp, Snapshots := [Snapshot ''inventory'']\<rparr>],
       rand_calls = 0,
       calls = [CallExecutePingOperation ''tcp://10.0.0.5:2375'' False, CallGetNextIdentifier,
                CallCreateSnapshot, CallCreateEndpoint 1]\<rparr>)"
  unfolding endpointCreate_def docker_validate
  by (simp add: run_defs effect_defs example_defs type_defs)

lemma type5_request_result:
  "endpointCreate example_Packages example_Handler type5_Request empty_World =
     (ResponseJSON
        (Some (zero_Endpoint
               \<lparr>ID := 1, Name := ''prod1'', URL := ''unix:///var/run/docker.sock'',
                Type := DockerEnvironment, GroupID := 1, Tags := Some [],
                Status := Some EndpointStatusUp, Snapshots := [Snapshot ''inventory'']\<rparr>)),
      \<lparr>sequence = 1,
       persisted = [zero_Endpoint
               \<lparr>ID := 1, Name := ''prod1'', URL := ''unix:///var/run/docker.sock'',
                Type := DockerEnvironment, GroupID := 1, Tags := Some [],
                Status := Some EndpointStatusUp, Snapshots := [Snapshot ''inventory'']\<rparr>],
       rand_calls = 0,
       calls = [CallGetNextIdentifier, CallCreateSnapshot, CallCreateEndpoint 1]\<rparr>)"
  unfolding endpointCreate_def type5_validate
  by (simp add: run_defs effect_defs example_defs type_defs)

subsection \<open>Azure registrations\<close>

text \<open>
  C9. A successful Azure registration returns and stores a record whose URL is the
  constant \<open>https://management.azure.com\<close>, whatever URL the payload carries, with
  status Up and no snapshot.
\<close>

theorem azure_endpoint_fixed_url:
  assumes "payload_EndpointType payload = AzureEnvironment"
    and "createEndpoint pk handler payload w = ((Some endpoint, herr), w')"
  shows "URL endpoint = ''https://management.azure.com''
       \<and> Status endpoint = Some EndpointStatusUp
       \<and> Snapshots endpoint = []
       \<and> Type endpoint = AzureEnvironment
       \<and> herr = None
       \<and> persisted w' = persisted w @ [endpoint]"
  using assms
  by (auto simp: createEndpoint_def createAzureEndpoint_def effect_defs Let_def
           split: option.splits prod.splits)

theorem azure_endpoint_fixed_url_witness:
  "payload_EndpointType azure_payload = AzureEnvironment
   \<and> payload_URL azure_payload = ''tcp://ignored:1''
   \<and> fst (fst (createEndpoint example_Packages example_Handler azure_payload empty_World)) \<noteq> None
   \<and> URL (the (fst (fst (createEndpoint example_Packages example_Handler azure_payload empty_World))))
       = ''https://management.azure.com''
   \<and> Status (the (fst (fst (createEndpoint example_Packages example_Handler azure_payload empty_World))))
       = Some EndpointStatusUp
   \<and> Snapshots (the (fst (fst (createEndpoint example_Packages example_Handler azure_payload empty_World))))
       = []"
proof -
  have t: "payload_EndpointType azure_payload = AzureEnvironment"
    by (simp add: azure_payload_def AzureEnvironment_def)
  have u: "payload_URL azure_payload = ''tcp://ignored:1''"
    by (simp add: azure_payload_def)
  have s: "fst (fst (createEndpoint example_Packages example_Handler azure_payload empty_World)) \<noteq> None"
    by (simp add: createEndpoint_def createAzureEndpoint_def effect_defs example_defs type_defs
          Let_def)
  then obtain endpoint herr w' where
    r: "createEndpoint example_Packages example_Handler azure_payload empty_World
          = ((Some endpoint, herr), w')"
    by (metis option.exhaust prod.collapse)
  from azure_endpoint_fixed_url [OF t r] t u r show ?thesis by simp
qed

subsection \<open>Edge agent registrations\<close>

text \<open>
  C7. For every Edge agent registration that returns a record, the port that \<open>randomInt\<close>
  drew lies in the half-open interval from 49152 to 65535, the URL of the record is
  \<open>tcp://localhost:\<close> followed by the decimal rendering of that port, and the record is the
  one added to the store.
\<close>

theorem edge_port_and_url:
  assumes "payload_EndpointType payload = EdgeAgentEnvironment"
    and "createEndpoint pk handler payload w = ((Some endpoint, herr), w')"
  shows "\<exists>port w1. randomInt pk 49152 65535 (snd (GetNextIdentifier w)) = Some (port, w1)
       \<and> 49152 \<le> port \<and> port < 65535
       \<and> URL endpoint = ''tcp://localhost:'' @ Itoa port
       \<and> persisted w' = persisted w @ [endpoint]"
proof -
  obtain port where p:
    "randomInt pk 49152 65535 (snd (GetNextIdentifier w))
       = Some (port, (snd (GetNextIdentifier w))
                       \<lparr>rand_calls := rand_calls (snd (GetNextIdentifier w)) + 1\<rparr>)"
    "49152 \<le> port" "port < 65535"
    using randomInt_dynamic_range by blast
  show ?thesis
    using assms p
    by (auto simp: createEndpoint_def createEdgeAgentEndpoint_def type_defs CreateEndpoint_def
                   GetNextIdentifier_def Let_def
             split: option.splits prod.splits)
qed

theorem edge_port_and_url_witness:
  "payload_EndpointType edge_payload = EdgeAgentEnvironment
   \<and> fst (fst (createEndpoint example_Packages example_Handler edge_payload empty_World)) \<noteq> None
   \<and> URL (the (fst (fst (createEndpoint example_Packages example_Handler edge_payload empty_World))))
        = ''tcp://localhost:61497''
   \<and> (\<exists>port. 49152 \<le> port \<and> port < 65535
         \<and> URL (the (fst (fst (createEndpoint example_Packages example_Handler edge_payload empty_World))))
             = ''tcp://localhost:'' @ Itoa port)"
proof -
  have t: "payload_EndpointType edge_payload = EdgeAgentEnvironment"
    by (simp add: edge_payload_def EdgeAgentEnvironment_def)
  from edge_port_and_url [OF t edge_example_result]
  show ?thesis
    using t by (auto simp: edge_example_result)
qed




subsection \<open>Hard failures\<close>

text \<open>
  C5. When the Azure authentication fails, or when the ping of a TLS-secured Docker
  registration fails, the registration returns no record and an error, nothing is stored,
  the identifier sequence is where it was, and the probe is the only call that was made:
  \<open>GetNextIdentifier\<close> is not reached.
\<close>

theorem hard_fail_takes_no_identifier:
  assumes "createEndpoint pk handler payload w = ((result, herr), w')"
  shows "(payload_EndpointType payload = AzureEnvironment
          \<and> client_ExecuteAzureAuthenticationRequest pk
               \<lparr>ApplicationID = payload_AzureApplicationID payload,
                TenantID = payload_AzureTenantID payload,
                AuthenticationKey = payload_AzureAuthenticationKey payload\<rparr> = Some e
          \<longrightarrow> result = None
            \<and> herr = Some \<lparr>StatusCode = 500, Message = ''Unable to authenticate against Azure'',
                           Err = e\<rparr>
            \<and> persisted w' = persisted w \<and> sequence w' = sequence w
            \<and> calls w' = calls w @ [CallExecuteAzureAuthenticationRequest])
       \<and> (payload_EndpointType payload \<noteq> AzureEnvironment
          \<and> payload_EndpointType payload \<noteq> EdgeAgentEnvironment
          \<and> payload_TLS payload
          \<and> crypto_CreateTLSConfigurationFromBytes pk
               (payload_TLSCACertFile payload) (payload_TLSCertFile payload)
               (payload_TLSKeyFile payload) (payload_TLSSkipClientVerify payload)
               (payload_TLSSkipVerify payload) = (tlsConfig, None)
          \<and> client_ExecutePingOperation pk (payload_URL payload) tlsConfig = (agent, Some e)
          \<longrightarrow> result = None
            \<and> herr = Some \<lparr>StatusCode = 500, Message = ''Unable to ping Docker environment'',
                           Err = e\<rparr>
            \<and> persisted w' = persisted w \<and> sequence w' = sequence w
            \<and> calls w' = calls w @ [CallExecutePingOperation (payload_URL payload) (tlsConfig \<noteq> None)])"
  using assms
  by (auto simp: createEndpoint_def createAzureEndpoint_def createTLSSecuredEndpoint_def
                 ExecuteAzureAuthenticationRequest_def ExecutePingOperation_def
                 StatusInternalServerError_def Let_def)

theorem hard_fail_takes_no_identifier_witness:
  "payload_EndpointType azure_payload = AzureEnvironment
   \<and> client_ExecuteAzureAuthenticationRequest unreachable_Packages
        \<lparr>ApplicationID = payload_AzureApplicationID azure_payload,
         TenantID = payload_AzureTenantID azure_payload,
         AuthenticationKey = payload_AzureAuthenticationKey azure_payload\<rparr>
       = Some ''invalid client secret''
   \<and> fst (fst (createEndpoint unreachable_Packages example_Handler azure_payload empty_World)) = None
   \<and> persisted (snd (createEndpoint unreachable_Packages example_Handler azure_payload empty_World))
       = persisted empty_World
   \<and> sequence (snd (createEndpoint unreachable_Packages example_Handler azure_payload empty_World))
       = sequence empty_World
   \<and> calls (snd (createEndpoint unreachable_Packages example_Handler azure_payload empty_World))
       = calls empty_World @ [CallExecuteAzureAuthenticationRequest]
   \<and> payload_EndpointType tls_payload \<noteq> AzureEnvironment
   \<and> payload_EndpointType tls_payload \<noteq> EdgeAgentEnvironment
   \<and> payload_TLS tls_payload
   \<and> client_ExecutePingOperation unreachable_Packages (payload_URL tls_payload)
        (Some (tls_Config ''client'')) = (False, Some ''connection refused'')
   \<and> fst (fst (createEndpoint unreachable_Packages example_Handler tls_payload empty_World)) = None
   \<and> persisted (snd (createEndpoint unreachable_Packages example_Handler tls_payload empty_World))
       = persisted empty_World
   \<and> sequence (snd (createEndpoint unreachable_Packages example_Handler tls_payload empty_World))
       = sequence empty_World
   \<and> calls (snd (createEndpoint unreachable_Packages example_Handler tls_payload empty_World))
       = calls empty_World @ [CallExecutePingOperation (payload_URL tls_payload) True]"
proof -
  have a1: "payload_EndpointType azure_payload = AzureEnvironment"
    by (simp add: azure_payload_def AzureEnvironment_def)
  have a2: "client_ExecuteAzureAuthenticationRequest unreachable_Packages
        \<lparr>ApplicationID = payload_AzureApplicationID azure_payload,
         TenantID = payload_AzureTenantID azure_payload,
         AuthenticationKey = payload_AzureAuthenticationKey azure_payload\<rparr>
       = Some ''invalid client secret''"
    by (simp add: unreachable_Packages_def)
  have t1: "payload_EndpointType tls_payload \<noteq> AzureEnvironment"
           "payload_EndpointType tls_payload \<noteq> EdgeAgentEnvironment"
           "payload_TLS tls_payload"
    by (simp_all add: example_defs type_defs)
  have t2: "crypto_CreateTLSConfigurationFromBytes unreachable_Packages
               (payload_TLSCACertFile tls_payload) (payload_TLSCertFile tls_payload)
               (payload_TLSKeyFile tls_payload) (payload_TLSSkipClientVerify tls_payload)
               (payload_TLSSkipVerify tls_payload) = (Some (tls_Config ''client''), None)"
    by (simp add: unreachable_Packages_def example_Packages_def)
  have t3: "client_ExecutePingOperation unreachable_Packages (payload_URL tls_payload)
        (Some (tls_Config ''client'')) = (False, Some ''connection refused'')"
    by (simp add: unreachable_Packages_def)
  have ra: "createEndpoint unreachable_Packages example_Handler azure_payload empty_World
              = ((fst (fst (createEndpoint unreachable_Packages example_Handler azure_payload empty_World)),
                  snd (fst (createEndpoint unreachable_Packages example_Handler azure_payload empty_World))),
                 snd (createEndpoint unreachable_Packages example_Handler azure_payload empty_World))"
    by simp
  have rt: "createEndpoint unreachable_Packages example_Handler tls_payload empty_World
              = ((fst (fst (createEndpoint unreachable_Packages example_Handler tls_payload empty_World)),
                  snd (fst (createEndpoint unreachable_Packages example_Handler tls_payload empty_World))),
                 snd (createEndpoint unreachable_Packages example_Handler tls_payload empty_World))"
    by simp
  from hard_fail_takes_no_identifier
         [OF ra, where e = "''invalid client secret''" and tlsConfig = None and agent = False]
       hard_fail_takes_no_identifier
         [OF rt, where e = "''connection refused''" and tlsConfig = "Some (tls_Config ''client'')"
            and agent = False]
  show ?thesis
    using a1 a2 t1 t2 t3 by simp
qed

text \<open>
  C6, as the spec states it: a TLS-secured registration whose certificate and key bytes do
  not parse is reported as a client error. It fails in the setting where the TLS parser
  rejects the bytes: the handler error carries status 500, which is not a client error.
\<close>

theorem tls_parse_failure_client_error_counterexample:
  "payload_EndpointType tls_payload \<noteq> AzureEnvironment
   \<and> payload_EndpointType tls_payload \<noteq> EdgeAgentEnvironment
   \<and> payload_TLS tls_payload
   \<and> snd (crypto_CreateTLSConfigurationFromBytes badTLS_Packages
             (payload_TLSCACertFile tls_payload) (payload_TLSCertFile tls_payload)
             (payload_TLSKeyFile tls_payload) (payload_TLSSkipClientVerify tls_payload)
             (payload_TLSSkipVerify tls_payload))
        = Some ''tls: failed to find any PEM data in certificate input''
   \<and> snd (fst (createEndpoint badTLS_Packages example_Handler tls_payload empty_World))
        = Some \<lparr>StatusCode = 500, Message = ''Unable to create TLS configuration'',
                 Err = ''tls: failed to find any PEM data in certificate input''\<rparr>
   \<and> \<not> client_error \<lparr>StatusCode = 500, Message = ''Unable to create TLS configuration'',
                        Err = ''tls: failed to find any PEM data in certificate input''\<rparr>"
proof -
  have h: "payload_EndpointType tls_payload \<noteq> AzureEnvironment"
          "payload_EndpointType tls_payload \<noteq> EdgeAgentEnvironment"
          "payload_TLS tls_payload"
    by (simp_all add: example_defs type_defs)
  have c: "snd (crypto_CreateTLSConfigurationFromBytes badTLS_Packages
             (payload_TLSCACertFile tls_payload) (payload_TLSCertFile tls_payload)
             (payload_TLSKeyFile tls_payload) (payload_TLSSkipClientVerify tls_payload)
             (payload_TLSSkipVerify tls_payload))
        = Some ''tls: failed to find any PEM data in certificate input''"
    by (simp add: badTLS_Packages_def)
  show ?thesis
    using h c by (simp add: tls_unparsed_result client_error_def)
qed

text \<open>
  C6, amended: when the certificate and key bytes of a TLS-secured Docker registration do
  not parse, the registration returns the error "Unable to create TLS configuration" with
  status 500, a server error, and the world is unchanged: no collaborator was called.
\<close>

theorem tls_parse_failure_is_server_error:
  assumes "payload_EndpointType payload \<noteq> AzureEnvironment"
    and "payload_EndpointType payload \<noteq> EdgeAgentEnvironment"
    and "payload_TLS payload"
    and "crypto_CreateTLSConfigurationFromBytes pk
               (payload_TLSCACertFile payload) (payload_TLSCertFile payload)
               (payload_TLSKeyFile payload) (payload_TLSSkipClientVerify payload)
               (payload_TLSSkipVerify payload) = (tlsConfig, Some e)"
  shows "createEndpoint pk handler payload w =
           ((None, Some \<lparr>StatusCode = 500, Message = ''Unable to create TLS configuration'',
                          Err = e\<rparr>), w)
       \<and> server_error \<lparr>StatusCode = 500, Message = ''Unable to create TLS configuration'',
                          Err = e\<rparr>"
  using assms
  by (simp add: createEndpoint_def createTLSSecuredEndpoint_def StatusInternalServerError_def
                server_error_def)

theorem tls_parse_failure_is_server_error_witness:
  "payload_EndpointType tls_payload \<noteq> AzureEnvironment
   \<and> payload_EndpointType tls_payload \<noteq> EdgeAgentEnvironment
   \<and> payload_TLS tls_payload
   \<and> crypto_CreateTLSConfigurationFromBytes badTLS_Packages
             (payload_TLSCACertFile tls_payload) (payload_TLSCertFile tls_payload)
             (payload_TLSKeyFile tls_payload) (payload_TLSSkipClientVerify tls_payload)
             (payload_TLSSkipVerify tls_payload)
        = (None, Some ''tls: failed to find any PEM data in certificate input'')
   \<and> createEndpoint badTLS_Packages example_Handler tls_payload empty_World =
        ((None, Some \<lparr>StatusCode = 500, Message = ''Unable to create TLS configuration'',
                      Err = ''tls: failed to find any PEM data in certificate input''\<rparr>),
         empty_World)
   \<and> server_error \<lparr>StatusCode = 500, Message = ''Unable to create TLS configuration'',
                     Err = ''tls: failed to find any PEM data in certificate input''\<rparr>"
proof -
  have t1: "payload_EndpointType tls_payload \<noteq> AzureEnvironment"
    and t2: "payload_EndpointType tls_payload \<noteq> EdgeAgentEnvironment"
    and t3: "payload_TLS tls_payload"
    by (simp_all add: example_defs type_defs)
  have t4: "crypto_CreateTLSConfigurationFromBytes badTLS_Packages
             (payload_TLSCACertFile tls_payload) (payload_TLSCertFile tls_payload)
             (payload_TLSKeyFile tls_payload) (payload_TLSSkipClientVerify tls_payload)
             (payload_TLSSkipVerify tls_payload)
        = (None, Some ''tls: failed to find any PEM data in certificate input'')"
    by (simp add: badTLS_Packages_def)
  from tls_parse_failure_is_server_error [OF t1 t2 t3 t4, of example_Handler empty_World]
  show ?thesis
    using t1 t2 t3 t4 by simp
qed

subsection \<open>Unsecured Docker registrations\<close>

text \<open>
  C10. An unsecured Docker registration with an empty URL makes no probe call; a record it
  returns has the local socket of the platform as its URL (the named pipe on Windows),
  the plain Docker type, and is the record added to the store.
\<close>

theorem empty_url_local_socket:
  assumes "payload_EndpointType payload \<noteq> AzureEnvironment"
    and "payload_EndpointType payload \<noteq> EdgeAgentEnvironment"
    and "\<not> payload_TLS payload"
    and "payload_URL payload = []"
    and "createEndpoint pk handler payload w = ((result, herr), w')"
  shows "filter is_probe (calls w') = filter is_probe (calls w)
       \<and> (\<forall>endpoint. result = Some endpoint \<longrightarrow>
            URL endpoint = (if runtime_GOOS pk = ''windows'' then ''npipe:////./pipe/docker_engine''
                            else ''unix:///var/run/docker.sock'')
          \<and> Type endpoint = DockerEnvironment
          \<and> persisted w' = persisted w @ [endpoint])"
  using assms
  by (auto simp: createEndpoint_def createUnsecuredEndpoint_def unsecured_probe_def
                 snapshotAndPersistEndpoint_def effect_defs Let_def
           split: option.splits prod.splits if_splits)

theorem empty_url_local_socket_witness:
  "payload_EndpointType local_payload \<noteq> AzureEnvironment
   \<and> payload_EndpointType local_payload \<noteq> EdgeAgentEnvironment
   \<and> \<not> payload_TLS local_payload
   \<and> payload_URL local_payload = []
   \<and> runtime_GOOS example_Packages = ''linux''
   \<and> fst (fst (createEndpoint example_Packages example_Handler local_payload empty_World)) \<noteq> None
   \<and> URL (the (fst (fst (createEndpoint example_Packages example_Handler local_payload empty_World))))
        = ''unix:///var/run/docker.sock''
   \<and> Type (the (fst (fst (createEndpoint example_Packages example_Handler local_payload empty_World))))
        = DockerEnvironment
   \<and> filter is_probe
        (calls (snd (createEndpoint example_Packages example_Handler local_payload empty_World)))
        = filter is_probe (calls empty_World)
   \<and> URL (the (fst (fst (createEndpoint (example_Packages\<lparr>runtime_GOOS := ''windows''\<rparr>)
                              example_Handler local_payload empty_World))))
        = ''npipe:////./pipe/docker_engine''"
proof -
  have h: "payload_EndpointType local_payload \<noteq> AzureEnvironment"
          "payload_EndpointType local_payload \<noteq> EdgeAgentEnvironment"
          "\<not> payload_TLS local_payload"
          "payload_URL local_payload = []"
    by (simp_all add: example_defs type_defs)
  have g: "runtime_GOOS example_Packages = ''linux''"
          "runtime_GOOS (example_Packages\<lparr>runtime_GOOS := ''windows''\<rparr>) = ''windows''"
    by (simp_all add: example_Packages_def)
  from empty_url_local_socket [OF h local_result]
       empty_url_local_socket [OF h local_windows_result]
  show ?thesis
    using h g by (simp add: local_result local_windows_result)
qed

text \<open>
  C1, as the spec states it: an unsecured Docker registration whose ping fails still
  creates and stores a record. It fails in the setting where the engine refuses the
  connection: the registration returns no record and the error of the ping, and the
  store stays empty.
\<close>

theorem unsecured_probe_failure_counterexample:
  "payload_EndpointType docker_payload \<noteq> AzureEnvironment
   \<and> payload_EndpointType docker_payload \<noteq> EdgeAgentEnvironment
   \<and> \<not> payload_TLS docker_payload
   \<and> snd (client_ExecutePingOperation unreachable_Packages (payload_URL docker_payload) None)
        = Some ''connection refused''
   \<and> fst (createEndpoint unreachable_Packages example_Handler docker_payload empty_World)
        = (None, Some \<lparr>StatusCode = 500, Message = ''Unable to ping Docker environment'',
                       Err = ''connection refused''\<rparr>)
   \<and> persisted (snd (createEndpoint unreachable_Packages example_Handler docker_payload empty_World))
        = []"
proof -
  have h: "payload_EndpointType docker_payload \<noteq> AzureEnvironment"
          "payload_EndpointType docker_payload \<noteq> EdgeAgentEnvironment"
          "\<not> payload_TLS docker_payload"
    by (simp_all add: example_defs type_defs)
  have p: "snd (client_ExecutePingOperation unreachable_Packages (payload_URL docker_payload) None)
        = Some ''connection refused''"
    by (simp add: unreachable_Packages_def)
  show ?thesis
    using h p by (simp add: docker_unreachable_result)
qed

text \<open>
  C1, amended: an unsecured Docker registration whose ping fails is aborted with the
  server error "Unable to ping Docker environment", with no record and no identifier
  taken. The soft failure belongs to the snapshot: when the ping succeeds or is skipped
  (empty URL), the snapshot of the record being registered fails without a snapshot and
  the store accepts the write of that record, the record is returned and stored with
  status Down and an empty snapshot list. Here \<open>endpoint0\<close> is the record as the
  constructor builds it, before the snapshot.
\<close>

theorem unsecured_probe_failure_is_hard:
  assumes "payload_EndpointType payload \<noteq> AzureEnvironment"
    and "payload_EndpointType payload \<noteq> EdgeAgentEnvironment"
    and "\<not> payload_TLS payload"
    and "createEndpoint pk handler payload w = ((result, herr), w')"
    and "endpoint0 =
           zero_Endpoint
             \<lparr>ID := sequence w + 1,
              Name := payload_Name payload,
              URL := (if payload_URL payload = []
                      then (if runtime_GOOS pk = ''windows''
                            then ''npipe:////./pipe/docker_engine''
                            else ''unix:///var/run/docker.sock'')
                      else payload_URL payload),
              Type := (if payload_URL payload \<noteq> []
                          \<and> fst (client_ExecutePingOperation pk (payload_URL payload) None)
                       then AgentOnDockerEnvironment else DockerEnvironment),
              GroupID := payload_GroupID payload,
              PublicURL := payload_PublicURL payload,
              TLSConfig := zero_TLSConfiguration\<lparr>TLS := False\<rparr>,
              Tags := payload_Tags payload,
              Status := Some EndpointStatusUp,
              Snapshots := []\<rparr>"
  shows "(payload_URL payload \<noteq> []
          \<and> client_ExecutePingOperation pk (payload_URL payload) None = (agent, Some e)
          \<longrightarrow> result = None
            \<and> herr = Some \<lparr>StatusCode = 500, Message = ''Unable to ping Docker environment'',
                           Err = e\<rparr>
            \<and> persisted w' = persisted w \<and> sequence w' = sequence w)
       \<and> ((payload_URL payload = []
             \<or> snd (client_ExecutePingOperation pk (payload_URL payload) None) = None)
          \<and> handler_Snapshotter_CreateSnapshot handler endpoint0 = (None, Some serr)
          \<and> handler_EndpointService_CreateEndpoint handler
               (endpoint0\<lparr>Status := Some EndpointStatusDown\<rparr>) = None
          \<longrightarrow> (\<exists>endpoint. endpoint = endpoint0\<lparr>Status := Some EndpointStatusDown\<rparr>
                 \<and> result = Some endpoint \<and> herr = None
                 \<and> Status endpoint = Some EndpointStatusDown
                 \<and> Snapshots endpoint = []
                 \<and> persisted w' = persisted w @ [endpoint]))"
  using assms
  by (auto simp: createEndpoint_def createUnsecuredEndpoint_def unsecured_probe_def
                 snapshotAndPersistEndpoint_def effect_defs Let_def zero_Endpoint_def
                 StatusInternalServerError_def
           split: option.splits prod.splits if_splits)

theorem unsecured_probe_failure_is_hard_witness:
  "payload_EndpointType docker_payload \<noteq> AzureEnvironment
   \<and> payload_EndpointType docker_payload \<noteq> EdgeAgentEnvironment
   \<and> \<not> payload_TLS docker_payload
   \<and> payload_URL docker_payload \<noteq> []
   \<and> client_ExecutePingOperation unreachable_Packages (payload_URL docker_payload) None
        = (False, Some ''connection refused'')
   \<and> fst (fst (createEndpoint unreachable_Packages example_Handler docker_payload empty_World)) = None
   \<and> persisted (snd (createEndpoint unreachable_Packages example_Handler docker_payload empty_World))
        = persisted empty_World
   \<and> snd (client_ExecutePingOperation example_Packages (payload_URL docker_payload) None) = None
   \<and> handler_Snapshotter_CreateSnapshot nosnapshot_Handler
        (zero_Endpoint
           \<lparr>ID := 1, Name := ''prod1'', URL := ''tcp://10.0.0.5:2375'',
            Type := DockerEnvironment, GroupID := 1, Tags := Some [],
            Status := Some EndpointStatusUp\<rparr>)
        = (None, Some ''cannot connect to the Docker daemon'')
   \<and> handler_EndpointService_CreateEndpoint nosnapshot_Handler
        (zero_Endpoint
           \<lparr>ID := 1, Name := ''prod1'', URL := ''tcp://10.0.0.5:2375'',
            Type := DockerEnvironment, GroupID := 1, Tags := Some [],
            Status := Some EndpointStatusDown\<rparr>) = None
   \<and> fst (createEndpoint example_Packages nosnapshot_Handler docker_payload empty_World)
        = (Some (zero_Endpoint
                   \<lparr>ID := 1, Name := ''prod1'', URL := ''tcp://10.0.0.5:2375'',
                    Type := DockerEnvironment, GroupID := 1, Tags := Some [],
                    Status := Some EndpointStatusDown\<rparr>), None)
   \<and> Snapshots (zero_Endpoint
                   \<lparr>ID := 1, Name := ''prod1'', URL := ''tcp://10.0.0.5:2375'',
                    Type := DockerEnvironment, GroupID := 1, Tags := Some [],
                    Status := Some EndpointStatusDown\<rparr>) = []
   \<and> persisted (snd (createEndpoint example_Packages nosnapshot_Handler docker_payload empty_World))
        = persisted empty_World
          @ [zero_Endpoint
               \<lparr>ID := 1, Name := ''prod1'', URL := ''tcp://10.0.0.5:2375'',
                Type := DockerEnvironment, GroupID := 1, Tags := Some [],
                Status := Some EndpointStatusDown\<rparr>]"
proof -
  let ?up = "zero_Endpoint
           \<lparr>ID := 1, Name := ''prod1'', URL := ''tcp://10.0.0.5:2375'',
            Type := DockerEnvironment, GroupID := 1, Tags := Some [],
            Status := Some EndpointStatusUp\<rparr>"
  let ?down = "zero_Endpoint
           \<lparr>ID := 1, Name := ''prod1'', URL := ''tcp://10.0.0.5:2375'',
            Type := DockerEnvironment, GroupID := 1, Tags := Some [],
            Status := Some EndpointStatusDown\<rparr>"
  have h: "payload_EndpointType docker_payload \<noteq> AzureEnvironment"
          "payload_EndpointType docker_payload \<noteq> EdgeAgentEnvironment"
          "\<not> payload_TLS docker_payload"
    by (simp_all add: example_defs type_defs)
  have u: "payload_URL docker_payload \<noteq> []"
    by (simp add: example_defs)
  have p1: "client_ExecutePingOperation unreachable_Packages (payload_URL docker_payload) None
        = (False, Some ''connection refused'')"
    by (simp add: unreachable_Packages_def)
  have p2: "snd (client_ExecutePingOperation example_Packages (payload_URL docker_payload) None) = None"
    by (simp add: example_Packages_def)
  have s: "handler_Snapshotter_CreateSnapshot nosnapshot_Handler ?up
             = (None, Some ''cannot connect to the Docker daemon'')"
    by (simp add: nosnapshot_Handler_def)
  have c: "handler_EndpointService_CreateEndpoint nosnapshot_Handler ?down = None"
    by (simp add: nosnapshot_Handler_def example_Handler_def)
  have d: "?up\<lparr>Status := Some EndpointStatusDown\<rparr> = ?down"
    by simp
  have n: "Snapshots ?down = []"
    by (simp add: zero_Endpoint_def)
  have e0: "?up =
           zero_Endpoint
             \<lparr>ID := sequence empty_World + 1,
              Name := payload_Name docker_payload,
              URL := (if payload_URL docker_payload = []
                      then (if runtime_GOOS example_Packages = ''windows''
                            then ''npipe:////./pipe/docker_engine''
                            else ''unix:///var/run/docker.sock'')
                      else payload_URL docker_payload),
              Type := (if payload_URL docker_payload \<noteq> []
                          \<and> fst (client_ExecutePingOperation example_Packages
                                   (payload_URL docker_payload) None)
                       then AgentOnDockerEnvironment else DockerEnvironment),
              GroupID := payload_GroupID docker_payload,
              PublicURL := payload_PublicURL docker_payload,
              TLSConfig := zero_TLSConfiguration\<lparr>TLS := False\<rparr>,
              Tags := payload_Tags docker_payload,
              Status := Some EndpointStatusUp,
              Snapshots := []\<rparr>"
    by (simp add: example_defs type_defs)
  have r1: "createEndpoint unreachable_Packages example_Handler docker_payload empty_World
              = ((fst (fst (createEndpoint unreachable_Packages example_Handler docker_payload empty_World)),
                  snd (fst (createEndpoint unreachable_Packages example_Handler docker_payload empty_World))),
                 snd (createEndpoint unreachable_Packages example_Handler docker_payload empty_World))"
    by simp
  have r2: "createEndpoint example_Packages nosnapshot_Handler docker_payload empty_World
              = ((fst (fst (createEndpoint example_Packages nosnapshot_Handler docker_payload empty_World)),
                  snd (fst (createEndpoint example_Packages nosnapshot_Handler docker_payload empty_World))),
                 snd (createEndpoint example_Packages nosnapshot_Handler docker_payload empty_World))"
    by simp
  from unsecured_probe_failure_is_hard
         [OF h r1 refl, where agent = False and e = "''connection refused''"
            and serr = "''cannot connect to the Docker daemon''"]
  have hard: "fst (fst (createEndpoint unreachable_Packages example_Handler docker_payload empty_World)) = None
      \<and> persisted (snd (createEndpoint unreachable_Packages example_Handler docker_payload empty_World))
        = persisted empty_World"
    using u p1 by simp
  from unsecured_probe_failure_is_hard
         [OF h r2 e0, where agent = False and e = "''connection refused''"
            and serr = "''cannot connect to the Docker daemon''"]
  have soft: "fst (createEndpoint example_Packages nosnapshot_Handler docker_payload empty_World)
                = (Some ?down, None)
       \<and> persisted (snd (createEndpoint example_Packages nosnapshot_Handler docker_payload empty_World))
           = persisted empty_World @ [?down]"
    using p2 s c unfolding d by (metis prod.collapse)
  show ?thesis
    using h u p1 p2 s c n hard soft by blast
qed

subsection \<open>Tags\<close>

text \<open>
  C8. A payload that \<open>Validate\<close> accepts never has nil tags, and has the empty sequence
  when the \<open>Tags\<close> field is absent; a present \<open>Tags\<close> value that \<open>json.Unmarshal\<close> rejects
  makes \<open>Validate\<close> fail; and \<open>endpointCreate\<close> stores at most one record, whose tags are
  not nil, as are those of the record in its JSON response.
\<close>

theorem tags_never_nil:
  "(Validate pk r = Inr payload
      \<longrightarrow> payload_Tags payload \<noteq> None
        \<and> (FormValue r ''Tags'' = [] \<longrightarrow> payload_Tags payload = Some []))
   \<and> (FormValue r ''Tags'' \<noteq> [] \<and> snd (json_Unmarshal pk (FormValue r ''Tags'')) \<noteq> None
      \<longrightarrow> (\<exists>msg. Validate pk r = Inl msg))
   \<and> (endpointCreate pk handler r w = (response, w')
      \<longrightarrow> (persisted w' = persisted w
           \<or> (\<exists>endpoint. persisted w' = persisted w @ [endpoint] \<and> Tags endpoint \<noteq> None))
        \<and> (\<forall>body. response = ResponseJSON body
              \<longrightarrow> (\<exists>endpoint. body = Some endpoint \<and> Tags endpoint \<noteq> None)))"
proof (intro conjI impI)
  assume "Validate pk r = Inr payload"
  then show "payload_Tags payload \<noteq> None" using Validate_tags by blast
next
  assume "Validate pk r = Inr payload" "FormValue r ''Tags'' = []"
  then show "payload_Tags payload = Some []" using Validate_tags by blast
next
  assume "FormValue r ''Tags'' \<noteq> [] \<and> snd (json_Unmarshal pk (FormValue r ''Tags'')) \<noteq> None"
  then show "\<exists>msg. Validate pk r = Inl msg" using Validate_bad_tags by blast
next
  assume a: "endpointCreate pk handler r w = (response, w')"
  show "persisted w' = persisted w
           \<or> (\<exists>endpoint. persisted w' = persisted w @ [endpoint] \<and> Tags endpoint \<noteq> None)"
  proof (cases "handler_authorizeEndpointManagement handler")
    case False
    with a show ?thesis by (simp add: endpointCreate_def)
  next
    case True
    show ?thesis
    proof (cases "Validate pk r")
      case (Inl msg)
      with a True show ?thesis by (simp add: endpointCreate_def)
    next
      case (Inr p)
      obtain result herr w1 where c: "createEndpoint pk handler p w = ((result, herr), w1)"
        by (metis prod.collapse)
      have "w' = w1" using a True Inr c by (simp add: endpointCreate_def split: option.splits)
      then show ?thesis using createEndpoint_tags [OF c] Validate_tags [OF Inr] by auto
    qed
  qed
next
  assume a: "endpointCreate pk handler r w = (response, w')"
  show "\<forall>body. response = ResponseJSON body
              \<longrightarrow> (\<exists>endpoint. body = Some endpoint \<and> Tags endpoint \<noteq> None)"
  proof (cases "handler_authorizeEndpointManagement handler")
    case False
    with a show ?thesis by (auto simp add: endpointCreate_def)
  next
    case True
    show ?thesis
    proof (cases "Validate pk r")
      case (Inl msg)
      with a True show ?thesis by (auto simp add: endpointCreate_def)
    next
      case (Inr p)
      obtain result herr w1 where c: "createEndpoint pk handler p w = ((result, herr), w1)"
        by (metis prod.collapse)
      have "response = (case herr of Some e \<Rightarrow> ResponseError e | None \<Rightarrow> ResponseJSON result)"
        using a True Inr c by (simp add: endpointCreate_def split: option.splits)
      then show ?thesis using createEndpoint_tags [OF c] Validate_tags [OF Inr]
        by (auto split: option.splits)
    qed
  qed
qed

theorem tags_never_nil_witness:
  "Validate example_Packages docker_Request =
     Inr (zero_payload\<lparr>payload_Name := ''prod1'', payload_URL := ''tcp://10.0.0.5:2375'',
                        payload_EndpointType := 1,
                        payload_GroupID := 1, payload_Tags := Some []\<rparr>)
   \<and> FormValue docker_Request ''Tags'' = []
   \<and> payload_Tags (zero_payload\<lparr>payload_Name := ''prod1'', payload_URL := ''tcp://10.0.0.5:2375'',
                        payload_EndpointType := 1,
                        payload_GroupID := 1, payload_Tags := Some []\<rparr>) = Some []
   \<and> FormValue badtags_Request ''Tags'' \<noteq> []
   \<and> snd (json_Unmarshal example_Packages (FormValue badtags_Request ''Tags'')) \<noteq> None
   \<and> (\<exists>msg. Validate example_Packages badtags_Request = Inl msg)
   \<and> (\<exists>endpoint.
         fst (endpointCreate example_Packages example_Handler docker_Request empty_World)
           = ResponseJSON (Some endpoint)
       \<and> Tags endpoint \<noteq> None)
   \<and> (\<exists>endpoint.
         persisted (snd (endpointCreate example_Packages example_Handler docker_Request empty_World))
           = persisted empty_World @ [endpoint]
       \<and> Tags endpoint \<noteq> None)"
proof -
  let ?p = "zero_payload\<lparr>payload_Name := ''prod1'', payload_URL := ''tcp://10.0.0.5:2375'',
                        payload_EndpointType := 1,
                        payload_GroupID := 1, payload_Tags := Some []\<rparr>"
  let ?run = "endpointCreate example_Packages example_Handler docker_Request empty_World"
  have a: "FormValue docker_Request ''Tags'' = []"
    by (simp add: docker_Request_def)
  have b: "FormValue badtags_Request ''Tags'' \<noteq> []"
    by (simp add: badtags_Request_def)
  have c: "snd (json_Unmarshal example_Packages (FormValue badtags_Request ''Tags'')) \<noteq> None"
    by (simp add: badtags_Request_def example_Packages_def)
  have r: "?run = (fst ?run, snd ?run)"
    by simp
  have n: "persisted (snd ?run) \<noteq> persisted empty_World"
    unfolding docker_request_result by (simp add: empty_World_def)
  have j: "fst ?run = ResponseJSON (Some (zero_Endpoint
               \<lparr>ID := 1, Name := ''prod1'', URL := ''tcp://10.0.0.5:2375'',
                Type := DockerEnvironment, GroupID := 1, Tags := Some [],
                Status := Some EndpointStatusUp, Snapshots := [Snapshot ''inventory'']\<rparr>))"
    by (simp add: docker_request_result)
  from tags_never_nil
         [where pk = example_Packages and r = docker_Request and payload = ?p
            and handler = example_Handler and w = empty_World
            and response = "fst ?run" and w' = "snd ?run"]
  have good: "payload_Tags ?p = Some []"
    and stored: "\<exists>endpoint. persisted (snd ?run) = persisted empty_World @ [endpoint]
                  \<and> Tags endpoint \<noteq> None"
    and body: "\<exists>endpoint. fst ?run = ResponseJSON (Some endpoint) \<and> Tags endpoint \<noteq> None"
    using docker_validate a r n j by auto
  from tags_never_nil
         [where pk = example_Packages and r = badtags_Request and payload = ?p
            and handler = example_Handler and w = empty_World
            and response = "fst ?run" and w' = "snd ?run"]
  have bad: "\<exists>msg. Validate example_Packages badtags_Request = Inl msg"
    using b c by blast
  show ?thesis
    using docker_validate a good b c bad body stored by blast
qed

subsection \<open>Where the handler departs from its own rules\<close>

text \<open>
  C2. The claim: when storing a TLS file fails, the registration fails and no record is
  stored. The handler tests the ping's \<open>err\<close>, which is nil at that point, instead of
  \<open>filesystemError\<close>. In the setting where the file store accepts the CA certificate and
  then fails, \<open>storeTLSFiles\<close> reports the failure of the certificate, and the registration
  nevertheless succeeds and stores a record that points to the CA file alone.
\<close>

theorem tls_store_failure_is_ignored:
  "handler_FileService_StoreTLSFileFromBytes diskfull_Handler ''1'' TLSFileCert
       (payload_TLSCertFile tls_payload) = ([], Some ''no space left on device'')
   \<and> snd (fst (storeTLSFiles diskfull_Handler (zero_Endpoint\<lparr>ID := 1\<rparr>) tls_payload empty_World))
       = Some \<lparr>StatusCode = 500, Message = ''Unable to persist TLS certificate file on disk'',
                Err = ''no space left on device''\<rparr>
   \<and> createEndpoint example_Packages diskfull_Handler tls_payload empty_World =
     ((Some (zero_Endpoint
               \<lparr>ID := 1, Name := ''prod1'', URL := ''tcp://10.0.0.5:2376'',
                Type := DockerEnvironment, GroupID := 1,
                TLSConfig := \<lparr>TLS = True, TLSSkipVerify = False,
                               TLSCACertPath = ''/data/tls/1/ca.pem'', TLSCertPath = [],
                               TLSKeyPath = []\<rparr>,
                Tags := Some [],
                Status := Some EndpointStatusUp, Snapshots := [Snapshot ''inventory'']\<rparr>), None),
      \<lparr>sequence = 1,
       persisted = [zero_Endpoint
               \<lparr>ID := 1, Name := ''prod1'', URL := ''tcp://10.0.0.5:2376'',
                Type := DockerEnvironment, GroupID := 1,
                TLSConfig := \<lparr>TLS = True, TLSSkipVerify = False,
                               TLSCACertPath = ''/data/tls/1/ca.pem'', TLSCertPath = [],
                               TLSKeyPath = []\<rparr>,
                Tags := Some [],
                Status := Some EndpointStatusUp, Snapshots := [Snapshot ''inventory'']\<rparr>],
       rand_calls = 0,
       calls = [CallExecutePingOperation ''tcp://10.0.0.5:2376'' True, CallGetNextIdentifier,
                CallStoreTLSFileFromBytes ''1'' TLSFileCA, CallStoreTLSFileFromBytes ''1'' TLSFileCert,
                CallCreateSnapshot, CallCreateEndpoint 1]\<rparr>)"
proof -
  have f: "handler_FileService_StoreTLSFileFromBytes diskfull_Handler ''1'' TLSFileCert
       (payload_TLSCertFile tls_payload) = ([], Some ''no space left on device'')"
    by (simp add: diskfull_Handler_def)
  have s: "snd (fst (storeTLSFiles diskfull_Handler (zero_Endpoint\<lparr>ID := 1\<rparr>) tls_payload empty_World))
       = Some \<lparr>StatusCode = 500, Message = ''Unable to persist TLS certificate file on disk'',
                Err = ''no space left on device''\<rparr>"
    by (simp add: run_defs effect_defs example_defs Itoa_1)
  show ?thesis
    using f s tls_diskfull_result by simp
qed

text \<open>
  C4. The claim: a type code other than 1, 2, 3 and 4 is a validation error. The parser,
  whose message says so, rejects only a missing, non-numeric or zero code. The form with
  the type code 5 is accepted, and the registration goes through as a plain Docker
  environment on the local socket.
\<close>

theorem unrecognized_type_code_is_registered:
  "FormValue type5_Request ''EndpointType'' = ''5''
   \<and> Validate example_Packages type5_Request =
       Inr (zero_payload\<lparr>payload_Name := ''prod1'', payload_EndpointType := 5,
                          payload_GroupID := 1, payload_Tags := Some []\<rparr>)
   \<and> endpointCreate example_Packages example_Handler type5_Request empty_World =
     (ResponseJSON
        (Some (zero_Endpoint
               \<lparr>ID := 1, Name := ''prod1'', URL := ''unix:///var/run/docker.sock'',
                Type := DockerEnvironment, GroupID := 1, Tags := Some [],
                Status := Some EndpointStatusUp, Snapshots := [Snapshot ''inventory'']\<rparr>)),
      \<lparr>sequence = 1,
       persisted = [zero_Endpoint
               \<lparr>ID := 1, Name := ''prod1'', URL := ''unix:///var/run/docker.sock'',
                Type := DockerEnvironment, GroupID := 1, Tags := Some [],
                Status := Some EndpointStatusUp, Snapshots := [Snapshot ''inventory'']\<rparr>],
       rand_calls = 0,
       calls = [CallGetNextIdentifier, CallCreateSnapshot, CallCreateEndpoint 1]\<rparr>)"
proof -
  have f: "FormValue type5_Request ''EndpointType'' = ''5''"
    by (simp add: type5_Request_def)
  show ?thesis
    using f type5_validate type5_request_result by simp
qed

theorem unrecognized_type_code_is_registered_witness:
  "(\<exists>payload. Validate example_Packages type5_Request = Inr payload
       \<and> payload_EndpointType payload = 5
       \<and> payload_EndpointType payload \<notin> {1, 2, 3, 4})
   \<and> (\<exists>endpoint.
         fst (endpointCreate example_Packages example_Handler type5_Request empty_World)
           = ResponseJSON (Some endpoint)
       \<and> persisted (snd (endpointCreate example_Packages example_Handler type5_Request empty_World))
           = [endpoint])"
  using unrecognized_type_code_is_registered by simp

end
